theory Spec2Isabelle
  imports Complex_Main "HOL-Library.Char_ord" "HOL-Library.List_Lexorder"
    "HOL-Library.Multiset" "HOL-Library.AList"
begin

section \<open>Data model (src/models/types.ts)\<close>

text \<open>
  The normalized records of the importer. A JavaScript \<open>number\<close> that holds a finite value
  is modelled by its exact rational value (\<open>createdAtEpoch\<close>) or, where the program only
  ever stores counts, by an integer (\<open>tabCount\<close>, \<open>totalGroups\<close>, \<open>totalTabs\<close>).
  Strings are byte lists; the order on strings is the lexicographic order on character
  codes, which is the order of the default \<open>Array.prototype.sort\<close> on ASCII strings.
\<close>

record Tab =
  id_tab :: string
  url :: string
  title_tab :: string
  domain :: string

record TabGroup =
  id_group :: string
  tabs :: "Tab list"
  createdAt :: string
  createdAtEpoch :: rat
  tabCount :: int
  starred :: bool
  title_group :: "string option"

datatype browser = Edge | Chrome | Firefox | UnknownBrowser

datatype extractionMethod = Devtools | Leveldb | Import

record Source =
  browser :: browser
  extensionId :: string
  extractionMethod :: extractionMethod

record DateRange =
  earliest :: string
  latest :: string

record Stats =
  totalGroups :: int
  totalTabs :: int
  dateRange :: DateRange

record MasterData =
  schemaVersion :: string
  exportedAt :: string
  source :: Source
  stats :: Stats
  groups :: "TabGroup list"

definition SCHEMA_VERSION :: string where
  "SCHEMA_VERSION = ''1.0.0''"

text \<open>
  \<open>nowIso()\<close> reads the system clock. A \<open>clock\<close> gives the reading of the k-th call of
  \<open>nowIso\<close> inside one invocation: the object literal that builds a MasterData evaluates
  \<open>exportedAt\<close> first (call 0) and the two fallbacks of \<open>dateRange\<close> after it (calls 1
  and 2, made only when there is no date).
\<close>

type_synonym clock = "nat \<Rightarrow> string"

section \<open>JavaScript numbers, decimal text and the calendar of \<open>Date\<close>\<close>

text \<open>
  A JavaScript \<open>number\<close>: a finite value (its exact rational value), \<open>NaN\<close> or an
  infinity. \<open>JSON.parse\<close> yields finite values and, for literals such as \<open>1e999\<close>,
  infinities.
\<close>

datatype jsnum = Finite rat | NaN | PosInf | NegInf

definition digitChar :: "nat \<Rightarrow> char" where
  "digitChar n = ''0123456789'' ! (n mod 10)"

text \<open>The last \<open>k\<close> decimal digits of \<open>n\<close>, with leading zeros.\<close>

fun digits :: "nat \<Rightarrow> nat \<Rightarrow> string" where
  "digits 0 n = []"
| "digits (Suc k) n = digits k (n div 10) @ [digitChar n]"

text \<open>\<open>Number.prototype.toString\<close> on an integer value.\<close>

function showNat :: "nat \<Rightarrow> string" where
  "showNat n = (if n < 10 then [digitChar n] else showNat (n div 10) @ [digitChar n])"
  by pat_completeness auto
termination
  by (relation "measure (\<lambda>n. n)") auto

declare showNat.simps [simp del]

definition showInt :: "int \<Rightarrow> string" where
  "showInt i = (if i < 0 then CHR ''-'' # showNat (nat (- i)) else showNat (nat i))"

text \<open>\<open>s.padStart(2, '0')\<close>\<close>

definition padStart2 :: "string \<Rightarrow> string" where
  "padStart2 s = replicate (2 - length s) CHR ''0'' @ s"

definition msPerDay :: int where
  "msPerDay = 86400000"

definition isLeapYear :: "int \<Rightarrow> bool" where
  "isLeapYear y = (y mod 4 = 0 \<and> (y mod 100 \<noteq> 0 \<or> y mod 400 = 0))"

definition daysInMonth :: "int \<Rightarrow> int \<Rightarrow> int" where
  "daysInMonth y m =
     (if m = 2 then (if isLeapYear y then 29 else 28)
      else if m = 4 \<or> m = 6 \<or> m = 9 \<or> m = 11 then 30 else 31)"

text \<open>
  Day number (days since 1970-01-01) of the proleptic Gregorian date \<open>y-m-d\<close>, month
  \<open>m\<close> in 1..12. A day \<open>d\<close> beyond the month's length runs on into the next month, as
  ECMAScript's \<open>MakeDay\<close> does.
\<close>

definition daysFromCivil :: "int \<Rightarrow> int \<Rightarrow> int \<Rightarrow> int" where
  "daysFromCivil y m d =
     (let y' = (if m \<le> 2 then y - 1 else y);
          era = y' div 400;
          yoe = y' - era * 400;
          doy = (153 * (if m > 2 then m - 3 else m + 9) + 2) div 5 + d - 1;
          doe = yoe * 365 + yoe div 4 - yoe div 100 + doy
      in era * 146097 + doe - 719468)"

text \<open>The inverse: year, month (1..12) and day of month of a day number
  (\<open>YearFromTime\<close>, \<open>MonthFromTime\<close>, \<open>DateFromTime\<close>).\<close>

definition civilFromDays :: "int \<Rightarrow> int \<times> int \<times> int" where
  "civilFromDays z =
     (let z' = z + 719468;
          era = z' div 146097;
          doe = z' - era * 146097;
          yoe = (doe - doe div 1460 + doe div 36524 - doe div 146096) div 365;
          doy = doe - (365 * yoe + yoe div 4 - yoe div 100);
          mp = (5 * doy + 2) div 153;
          d = doy - (153 * mp + 2) div 5 + 1;
          m = (if mp < 10 then mp + 3 else mp - 9);
          y = yoe + era * 400
      in ((if m \<le> 2 then y + 1 else y), m, d))"

text \<open>\<open>WeekDay(t)\<close>: 0 is Sunday; 1970-01-01 was a Thursday.\<close>

definition weekDay :: "int \<Rightarrow> int" where
  "weekDay day = (day + 4) mod 7"

text \<open>\<open>Date.prototype.toISOString\<close> on a valid time value: four-digit years 0..9999,
  otherwise a sign and six digits.\<close>

definition isoYear :: "int \<Rightarrow> string" where
  "isoYear y =
     (if 0 \<le> y \<and> y \<le> 9999 then digits 4 (nat y)
      else (if y < 0 then CHR ''-'' else CHR ''+'') # digits 6 (nat \<bar>y\<bar>))"

definition toISOString :: "int \<Rightarrow> string" where
  "toISOString t =
     (let day = t div msPerDay;
          ms = t mod msPerDay;
          (y, m, d) = civilFromDays day
      in isoYear y @ ''-'' @ digits 2 (nat m) @ ''-'' @ digits 2 (nat d) @ ''T''
         @ digits 2 (nat (ms div 3600000)) @ '':''
         @ digits 2 (nat (ms div 60000 mod 60)) @ '':''
         @ digits 2 (nat (ms div 1000 mod 60)) @ ''.''
         @ digits 3 (nat (ms mod 1000)) @ ''Z'')"

text \<open>\<open>new Date(value)\<close> for a number: \<open>TimeClip\<close>. \<open>None\<close> is the invalid date.\<close>

definition timeClip :: "jsnum \<Rightarrow> int option" where
  "timeClip n =
     (case n of
        Finite q \<Rightarrow>
          (if \<bar>q\<bar> > 8640000000000000 then None
           else Some (if q \<ge> 0 then \<lfloor>q\<rfloor> else \<lceil>q\<rceil>))
      | _ \<Rightarrow> None)"

section \<open>Date utilities (src/utils/dates.ts)\<close>

text \<open>\<open>epochToIso\<close>: \<open>new Date(epochMs).toISOString()\<close>, which throws a RangeError on an
  invalid date.\<close>

definition epochToIso :: "jsnum \<Rightarrow> string + string" where
  "epochToIso epochMs =
     (case timeClip epochMs of
        None \<Rightarrow> Inl ''RangeError: Invalid time value''
      | Some t \<Rightarrow> Inr (toISOString t))"

text \<open>
  \<open>new Date(string)\<close>. The model decides the strings in the form \<open>toISOString\<close> writes
  (\<open>YYYY-MM-DDTHH:mm:ss.sssZ\<close>, or with a sign and a six-digit year) that name a legal
  calendar instant. What any other string parses to is left to the host's parser, the
  parameter \<open>lp\<close> of \<open>Date_parse\<close>; \<open>None\<close> is the invalid date, whose \<open>getTime()\<close>
  is \<open>NaN\<close>.
\<close>

definition isDigit :: "char \<Rightarrow> bool" where
  "isDigit c = (c \<in> set ''0123456789'')"

definition digitVal :: "char \<Rightarrow> nat" where
  "digitVal c = of_char c - 48"

definition readNat :: "string \<Rightarrow> nat option" where
  "readNat s =
     (if s \<noteq> [] \<and> list_all isDigit s
      then Some (foldl (\<lambda>a c. 10 * a + digitVal c) 0 s) else None)"

text \<open>The part after the year: \<open>-MM-DDTHH:mm:ss.sssZ\<close>.\<close>

definition parseIsoRest :: "int \<Rightarrow> string \<Rightarrow> int option" where
  "parseIsoRest y r =
     (if length r = 20 \<and> r ! 0 = CHR ''-'' \<and> r ! 3 = CHR ''-'' \<and> r ! 6 = CHR ''T''
         \<and> r ! 9 = CHR '':'' \<and> r ! 12 = CHR '':'' \<and> r ! 15 = CHR ''.'' \<and> r ! 19 = CHR ''Z''
      then
        (case (readNat (take 2 (drop 1 r)), readNat (take 2 (drop 4 r)),
               readNat (take 2 (drop 7 r)), readNat (take 2 (drop 10 r)),
               readNat (take 2 (drop 13 r)), readNat (take 3 (drop 16 r))) of
           (Some mo, Some d, Some h, Some mi, Some sec, Some ms) \<Rightarrow>
             (if 1 \<le> mo \<and> mo \<le> 12 \<and> 1 \<le> d \<and> int d \<le> daysInMonth y (int mo)
                 \<and> (h < 24 \<or> (h = 24 \<and> mi = 0 \<and> sec = 0 \<and> ms = 0))
                 \<and> mi < 60 \<and> sec < 60
              then Some (daysFromCivil y (int mo) (int d) * msPerDay
                         + int h * 3600000 + int mi * 60000 + int sec * 1000 + int ms)
              else None)
         | _ \<Rightarrow> None)
      else None)"

definition parseIsoUtc :: "string \<Rightarrow> int option" where
  "parseIsoUtc s =
     (if length s = 24 then
        (case readNat (take 4 s) of
           Some y \<Rightarrow> parseIsoRest (int y) (drop 4 s)
         | None \<Rightarrow> None)
      else if length s = 27 \<and> (hd s = CHR ''+'' \<or> hd s = CHR ''-'') then
        (case readNat (take 6 (drop 1 s)) of
           Some y \<Rightarrow>
             (if hd s = CHR ''-'' then (if y = 0 then None else parseIsoRest (- int y) (drop 7 s))
              else parseIsoRest (int y) (drop 7 s))
         | None \<Rightarrow> None)
      else None)"

definition Date_parse :: "(string \<Rightarrow> int option) \<Rightarrow> string \<Rightarrow> int option" where
  "Date_parse lp s =
     (case parseIsoUtc s of
        Some t \<Rightarrow> (if \<bar>t\<bar> > 8640000000000000 then None else Some t)
      | None \<Rightarrow> lp s)"

text \<open>\<open>a < b\<close> on two \<open>getTime()\<close> results: false as soon as one of them is
  \<open>NaN\<close>.\<close>

definition numLess :: "int option \<Rightarrow> int option \<Rightarrow> bool" where
  "numLess a b = (case (a, b) of (Some x, Some y) \<Rightarrow> x < y | _ \<Rightarrow> False)"

definition getYear :: "string \<Rightarrow> string" where
  "getYear isoString = take 4 isoString"

definition getYearMonth :: "string \<Rightarrow> string" where
  "getYearMonth isoString = take 7 isoString"

definition getDateOnly :: "string \<Rightarrow> string" where
  "getDateOnly isoString = take 10 isoString"

text \<open>
  \<open>new Date(year, monthIndex, day)\<close> reads its arguments in local time and maps a year
  0..99 to 1900 + year. The model takes local time to be UTC shifted by a constant offset
  \<open>tz\<close> (milliseconds), with no daylight-saving change during the year.
\<close>

definition fullYearArg :: "int \<Rightarrow> int" where
  "fullYearArg y = (if 0 \<le> y \<and> y \<le> 99 then 1900 + y else y)"

text \<open>
  \<open>getYearWeek\<close>: \<open>pastDaysOfYear\<close> is the time elapsed since local midnight of 1 January
  divided by the length of a day, a fraction in general.
\<close>

definition getYearWeek :: "(string \<Rightarrow> int option) \<Rightarrow> int \<Rightarrow> string \<Rightarrow> string" where
  "getYearWeek lp tz isoString =
     (case Date_parse lp isoString of
        None \<Rightarrow> ''NaN-WNaN''
      | Some t \<Rightarrow>
          (let year = fst (civilFromDays ((t + tz) div msPerDay));
               firstDay = daysFromCivil (fullYearArg year) 1 1;
               firstDayOfYear = firstDay * msPerDay - tz
           in if \<bar>firstDayOfYear\<bar> > 8640000000000000 then showInt year @ ''-WNaN''
              else
                (let pastDaysOfYear = (of_int (t - firstDayOfYear) :: rat) / of_int msPerDay;
                     weekNumber = \<lceil>(pastDaysOfYear + of_int (weekDay firstDay) + 1) / 7\<rceil>
                 in showInt year @ ''-W'' @ padStart2 (showInt weekNumber))))"

definition isDateInRange ::
  "(string \<Rightarrow> int option) \<Rightarrow> string \<Rightarrow> string option \<Rightarrow> string option \<Rightarrow> bool" where
  "isDateInRange lp dateIso fromIso toIso =
     (let date = Date_parse lp dateIso
      in if (case fromIso of
               Some f \<Rightarrow> f \<noteq> [] \<and> numLess date (Date_parse lp f)
             | None \<Rightarrow> False) then False
         else if (case toIso of
                    Some t \<Rightarrow> t \<noteq> [] \<and> numLess (Date_parse lp t) date
                  | None \<Rightarrow> False) then False
         else True)"

text \<open>The three regular expressions of \<open>parseFlexibleDate\<close>.\<close>

definition isYMD :: "string \<Rightarrow> bool" where
  "isYMD s = (length s = 10 \<and> list_all isDigit (take 4 s) \<and> s ! 4 = CHR ''-''
     \<and> list_all isDigit (take 2 (drop 5 s)) \<and> s ! 7 = CHR ''-''
     \<and> list_all isDigit (drop 8 s))"

definition isYM :: "string \<Rightarrow> bool" where
  "isYM s = (length s = 7 \<and> list_all isDigit (take 4 s) \<and> s ! 4 = CHR ''-''
     \<and> list_all isDigit (drop 5 s))"

definition isY :: "string \<Rightarrow> bool" where
  "isY s = (length s = 4 \<and> list_all isDigit s)"

text \<open>\<open>new Date(year, month, 0).getDate()\<close>: day 0 of month index \<open>month\<close> (counted
  from 0, and carried into the neighbouring years when out of 0..11) is the last day of
  the month before it, so the result is the length of the month with index
  \<open>month - 1\<close>.\<close>

definition lastDayOf :: "int \<Rightarrow> int \<Rightarrow> int" where
  "lastDayOf year month =
     (let k = month - 1
      in daysInMonth (fullYearArg year + k div 12) (k mod 12 + 1))"

definition parseFlexibleDate ::
  "(string \<Rightarrow> int option) \<Rightarrow> string \<Rightarrow> bool \<Rightarrow> string + string" where
  "parseFlexibleDate lp dateStr endOfPeriod =
     (if CHR ''T'' \<in> set dateStr then Inr dateStr
      else if isYMD dateStr then
        (if endOfPeriod then Inr (dateStr @ ''T23:59:59.999Z'')
         else Inr (dateStr @ ''T00:00:00.000Z''))
      else if isYM dateStr then
        (if endOfPeriod then
           (let year = int (the (readNat (take 4 dateStr)));
                month = int (the (readNat (drop 5 dateStr)));
                lastDay = lastDayOf year month
            in Inr (dateStr @ ''-'' @ padStart2 (showInt lastDay) @ ''T23:59:59.999Z''))
         else Inr (dateStr @ ''-01T00:00:00.000Z''))
      else if isY dateStr then
        (if endOfPeriod then Inr (dateStr @ ''-12-31T23:59:59.999Z'')
         else Inr (dateStr @ ''-01-01T00:00:00.000Z''))
      else
        (case Date_parse lp dateStr of
           None \<Rightarrow> Inl ''RangeError: Invalid time value''
         | Some t \<Rightarrow> Inr (toISOString t)))"

section \<open>Raw exports and their validation (src/parsers/json.ts)\<close>

text \<open>
  The raw export is an untyped JavaScript value as \<open>JSON.parse\<close> builds it. An object is
  the list of its own properties; a property read \<open>o.k\<close> finds the binding of \<open>k\<close> or is
  \<open>undefined\<close> (\<open>None\<close>). Arrays are objects too (\<open>typeof [] === 'object'\<close>) but have
  none of the properties read here.
\<close>

datatype json =
    JNull
  | JBool bool
  | JNum jsnum
  | JStr string
  | JArr "json list"
  | JObj "(string \<times> json) list"

text \<open>\<open>obj && typeof obj === 'object'\<close>\<close>

definition isObject :: "json \<Rightarrow> bool" where
  "isObject j = (case j of JObj _ \<Rightarrow> True | JArr _ \<Rightarrow> True | _ \<Rightarrow> False)"

definition getProp :: "json \<Rightarrow> string \<Rightarrow> json option" where
  "getProp j k = (case j of JObj kvs \<Rightarrow> map_of kvs k | _ \<Rightarrow> None)"

text \<open>\<open>{ ...obj, k: v }\<close>\<close>

definition spreadWith :: "json \<Rightarrow> string \<Rightarrow> json \<Rightarrow> json" where
  "spreadWith j k v = (case j of JObj kvs \<Rightarrow> JObj (AList.update k v kvs) | _ \<Rightarrow> JObj [(k, v)])"

definition isStr :: "json option \<Rightarrow> bool" where
  "isStr v = (case v of Some (JStr _) \<Rightarrow> True | _ \<Rightarrow> False)"

definition isNum :: "json option \<Rightarrow> bool" where
  "isNum v = (case v of Some (JNum _) \<Rightarrow> True | _ \<Rightarrow> False)"

definition isValidTab :: "json \<Rightarrow> bool" where
  "isValidTab obj =
     (if \<not> isObject obj then False
      else isStr (getProp obj ''id'') \<and> isStr (getProp obj ''url'')
           \<and> isStr (getProp obj ''title''))"

definition isValidGroup :: "json \<Rightarrow> bool" where
  "isValidGroup obj =
     (if \<not> isObject obj then False
      else isStr (getProp obj ''id'') \<and> isNum (getProp obj ''createDate'')
           \<and> (case getProp obj ''tabsMeta'' of
                 Some (JArr ts) \<Rightarrow> list_all isValidTab ts
               | _ \<Rightarrow> False))"

text \<open>The messages of the errors \<open>validateOneTabExport\<close> throws.\<close>

definition ERR_OBJECT :: string where
  "ERR_OBJECT = ''Invalid OneTab export: expected an object''"

definition ERR_STATE_JSON :: string where
  "ERR_STATE_JSON = ''Invalid OneTab export: state is a string but not valid JSON''"

definition ERR_TABGROUPS_JSON :: string where
  "ERR_TABGROUPS_JSON = ''Invalid OneTab export: tabGroups is a string but not valid JSON''"

definition ERR_ENTRIES :: string where
  "ERR_ENTRIES = ''Invalid OneTab export: tabGroups contains invalid entries''"

definition ERR_SHAPE :: string where
  "ERR_SHAPE = ''Invalid OneTab export: could not find tabGroups array. ''
     @ ''Expected { state: { tabGroups: [...] } } or { tabGroups: [...] }''"

text \<open>
  \<open>if (typeof o.k === 'string') { try { o = { ...o, k: JSON.parse(o.k) } } catch { throw ... } }\<close>:
  the one step all three re-parsing blocks share. \<open>jsonParse\<close> is \<open>JSON.parse\<close>, \<open>None\<close>
  where it throws a SyntaxError.
\<close>

definition reparseField ::
  "(string \<Rightarrow> json option) \<Rightarrow> string \<Rightarrow> string \<Rightarrow> json \<Rightarrow> string + json" where
  "reparseField jsonParse k err obj =
     (case getProp obj k of
        Some (JStr s) \<Rightarrow>
          (case jsonParse s of
             None \<Rightarrow> Inl err
           | Some v \<Rightarrow> Inr (spreadWith obj k v))
      | _ \<Rightarrow> Inr obj)"

text \<open>\<open>if (Array.isArray(o.tabGroups)) { if (!o.tabGroups.every(isValidGroup)) throw ...;
  return o.tabGroups }\<close>: \<open>Some\<close> when the block returns or throws, \<open>None\<close> when control
  goes on.\<close>

definition takeTabGroups :: "json \<Rightarrow> (string + json list) option" where
  "takeTabGroups obj =
     (case getProp obj ''tabGroups'' of
        Some (JArr gs) \<Rightarrow>
          Some (if \<not> list_all isValidGroup gs then Inl ERR_ENTRIES else Inr gs)
      | _ \<Rightarrow> None)"

text \<open>The block \<open>if (obj.state && typeof obj.state === 'object') { ... }\<close>.\<close>

definition fromState :: "(string \<Rightarrow> json option) \<Rightarrow> json \<Rightarrow> (string + json list) option" where
  "fromState jsonParse obj =
     (case getProp obj ''state'' of
        Some st \<Rightarrow>
          (if isObject st then
             (case reparseField jsonParse ''tabGroups'' ERR_TABGROUPS_JSON st of
                Inl e \<Rightarrow> Some (Inl e)
              | Inr state \<Rightarrow> takeTabGroups state)
           else None)
      | None \<Rightarrow> None)"

text \<open>The rest of the function, reached when the \<open>state\<close> block neither returned nor
  threw: the re-parse of a top-level \<open>tabGroups\<close> string, the two array checks and the
  final error.\<close>

definition fromTop :: "(string \<Rightarrow> json option) \<Rightarrow> json \<Rightarrow> string + json list" where
  "fromTop jsonParse obj =
     (case reparseField jsonParse ''tabGroups'' ERR_TABGROUPS_JSON obj of
        Inl e \<Rightarrow> Inl e
      | Inr obj' \<Rightarrow>
          (case takeTabGroups obj' of
             Some r \<Rightarrow> r
           | None \<Rightarrow>
               (case takeTabGroups obj' of
                  Some r \<Rightarrow> r
                | None \<Rightarrow> Inl ERR_SHAPE)))"

definition validateOneTabExport :: "(string \<Rightarrow> json option) \<Rightarrow> json \<Rightarrow> string + json list" where
  "validateOneTabExport jsonParse data =
     (if \<not> isObject data then Inl ERR_OBJECT
      else
        (case reparseField jsonParse ''state'' ERR_STATE_JSON data of
           Inl e \<Rightarrow> Inl e
         | Inr obj \<Rightarrow>
             (case fromState jsonParse obj of
                Some r \<Rightarrow> r
              | None \<Rightarrow> fromTop jsonParse obj)))"

section \<open>Domain extraction (src/utils/files.ts)\<close>

text \<open>
  \<open>new URL(url)\<close> without a base fails on every input that does not start with a scheme:
  after leading control characters and spaces are stripped and tabs and newlines removed,
  an ASCII letter, then letters, digits, \<open>+\<close>, \<open>-\<close> or \<open>.\<close>, then a colon. For an input
  with a scheme, whether the rest parses and what \<open>hostname\<close> it has is left to the host's
  URL parser, the parameter \<open>hp\<close> (\<open>None\<close> where the constructor throws).
\<close>

definition isAlpha :: "char \<Rightarrow> bool" where
  "isAlpha c = ((CHR ''a'' \<le> c \<and> c \<le> CHR ''z'') \<or> (CHR ''A'' \<le> c \<and> c \<le> CHR ''Z''))"

definition isSchemeChar :: "char \<Rightarrow> bool" where
  "isSchemeChar c = (isAlpha c \<or> isDigit c \<or> c = CHR ''+'' \<or> c = CHR ''-'' \<or> c = CHR ''.'')"

definition hasScheme :: "string \<Rightarrow> bool" where
  "hasScheme u =
     (let v = dropWhile (\<lambda>c. (of_char c :: nat) \<le> 32)
                (filter (\<lambda>c. (of_char c :: nat) \<notin> {9, 10, 13}) u)
      in case v of
           [] \<Rightarrow> False
         | c # cs \<Rightarrow> isAlpha c \<and> (case dropWhile isSchemeChar cs of
                                      [] \<Rightarrow> False
                                    | d # _ \<Rightarrow> d = CHR '':''))"

definition URL_hostname :: "(string \<Rightarrow> string option) \<Rightarrow> string \<Rightarrow> string option" where
  "URL_hostname hp u = (if hasScheme u then hp u else None)"

text \<open>\<open>url.match(/^(?:https?:\/\/)?([^:/]+)/)\<close>: the capture group, \<open>None\<close> when there is
  no match. The optional prefix is tried first and given up when no host character
  follows it.\<close>

definition hostChars :: "string \<Rightarrow> string" where
  "hostChars u = takeWhile (\<lambda>c. c \<noteq> CHR '':'' \<and> c \<noteq> CHR ''/'') u"

definition afterHttpPrefix :: "string \<Rightarrow> string option" where
  "afterHttpPrefix u =
     (if take 8 u = ''https://'' then Some (drop 8 u)
      else if take 7 u = ''http://'' then Some (drop 7 u)
      else None)"

definition matchHost :: "string \<Rightarrow> string option" where
  "matchHost u =
     (case afterHttpPrefix u of
        Some rest \<Rightarrow>
          (if hostChars rest \<noteq> [] then Some (hostChars rest)
           else if hostChars u \<noteq> [] then Some (hostChars u) else None)
      | None \<Rightarrow> (if hostChars u \<noteq> [] then Some (hostChars u) else None))"

definition extractDomain :: "(string \<Rightarrow> string option) \<Rightarrow> string \<Rightarrow> string" where
  "extractDomain hp u =
     (case URL_hostname hp u of
        Some hostname \<Rightarrow> hostname
      | None \<Rightarrow> (case matchHost u of Some h \<Rightarrow> h | None \<Rightarrow> ''unknown''))"

text \<open>\<open>String.prototype.toLowerCase\<close> on ASCII text; other bytes are left as they
  are.\<close>

definition lowerChar :: "char \<Rightarrow> char" where
  "lowerChar c = (if CHR ''A'' \<le> c \<and> c \<le> CHR ''Z'' then char_of (of_char c + (32::nat)) else c)"

definition toLowerCase :: "string \<Rightarrow> string" where
  "toLowerCase s = map lowerChar s"

section \<open>Normalization (src/parsers/json.ts)\<close>

text \<open>
  Field reads on a record that passed validation. The optional fields \<open>starred\<close> and
  \<open>title\<close> are not validated by the program; the model reads one of an unexpected type
  as absent.
\<close>

definition strProp :: "json \<Rightarrow> string \<Rightarrow> string" where
  "strProp j k = (case getProp j k of Some (JStr s) \<Rightarrow> s | _ \<Rightarrow> [])"

definition transformTab :: "(string \<Rightarrow> string option) \<Rightarrow> json \<Rightarrow> Tab" where
  "transformTab hp tab =
     \<lparr> id_tab = strProp tab ''id'',
       url = strProp tab ''url'',
       title_tab = (if strProp tab ''title'' \<noteq> [] then strProp tab ''title''
                    else extractDomain hp (strProp tab ''url'')),
       domain = extractDomain hp (strProp tab ''url'') \<rparr>"

definition transformGroup :: "(string \<Rightarrow> string option) \<Rightarrow> json \<Rightarrow> string + TabGroup" where
  "transformGroup hp grp =
     (let createDate = (case getProp grp ''createDate'' of Some (JNum n) \<Rightarrow> n | _ \<Rightarrow> NaN)
      in case epochToIso createDate of
           Inl e \<Rightarrow> Inl e
         | Inr createdAt' \<Rightarrow>
             (let tabs' = map (transformTab hp)
                            (case getProp grp ''tabsMeta'' of Some (JArr ts) \<Rightarrow> ts | _ \<Rightarrow> [])
              in Inr \<lparr> id_group = strProp grp ''id'',
                       tabs = tabs',
                       createdAt = createdAt',
                       createdAtEpoch = (case createDate of Finite q \<Rightarrow> q | _ \<Rightarrow> 0),
                       tabCount = int (length tabs'),
                       starred = (case getProp grp ''starred'' of
                                    Some (JBool b) \<Rightarrow> b | _ \<Rightarrow> False),
                       title_group = (case getProp grp ''title'' of
                                        Some (JStr s) \<Rightarrow> Some s | _ \<Rightarrow> None) \<rparr>))"

text \<open>\<open>xs.map(f)\<close> for an \<open>f\<close> that may throw: the first exception ends the call.\<close>

fun mapThrowing :: "('a \<Rightarrow> 'e + 'b) \<Rightarrow> 'a list \<Rightarrow> 'e + 'b list" where
  "mapThrowing f [] = Inr []"
| "mapThrowing f (x # xs) =
     (case f x of
        Inl e \<Rightarrow> Inl e
      | Inr y \<Rightarrow> (case mapThrowing f xs of Inl e \<Rightarrow> Inl e | Inr ys \<Rightarrow> Inr (y # ys)))"

section \<open>Aggregate statistics and merge (src/parsers/json.ts)\<close>

text \<open>\<open>groups.sort((a, b) => b.createdAtEpoch - a.createdAtEpoch)\<close>: a stable sort,
  newest first.\<close>

definition sortNewestFirst :: "TabGroup list \<Rightarrow> TabGroup list" where
  "sortNewestFirst gs = sort_key (\<lambda>g. - createdAtEpoch g) gs"

text \<open>\<open>groups.reduce((sum, g) => sum + g.tabCount, 0)\<close>\<close>

definition sumTabCount :: "TabGroup list \<Rightarrow> int" where
  "sumTabCount gs = foldl (\<lambda>s g. s + tabCount g) 0 gs"

text \<open>\<open>groups.map((g) => g.createdAt).sort()\<close>\<close>

definition sortedDates :: "TabGroup list \<Rightarrow> string list" where
  "sortedDates gs = sort (map createdAt gs)"

text \<open>The \<open>stats\<close> object literal shared by \<open>parseOneTabJson\<close> and
  \<open>mergeMasterData\<close>: \<open>dates[0] ?? nowIso()\<close> and
  \<open>dates[dates.length - 1] ?? nowIso()\<close>.\<close>

definition computeStats :: "clock \<Rightarrow> TabGroup list \<Rightarrow> Stats" where
  "computeStats clk gs =
     (let totalTabs' = sumTabCount gs;
          dates = sortedDates gs
      in \<lparr> totalGroups = int (length gs),
           totalTabs = totalTabs',
           dateRange = \<lparr> earliest = (case dates of [] \<Rightarrow> clk 1 | d # _ \<Rightarrow> d),
                         latest = (if dates = [] then clk 2 else last dates) \<rparr> \<rparr>)"

definition parseOneTabJson ::
  "(string \<Rightarrow> json option) \<Rightarrow> (string \<Rightarrow> string option) \<Rightarrow> clock \<Rightarrow> json \<Rightarrow> Source
     \<Rightarrow> string + MasterData" where
  "parseOneTabJson jsonParse hp clk rawData src =
     (case validateOneTabExport jsonParse rawData of
        Inl e \<Rightarrow> Inl e
      | Inr oneTabGroups \<Rightarrow>
          (case mapThrowing (transformGroup hp) oneTabGroups of
             Inl e \<Rightarrow> Inl e
           | Inr gs \<Rightarrow>
               (let groups' = sortNewestFirst gs
                in Inr \<lparr> schemaVersion = SCHEMA_VERSION,
                         exportedAt = clk 0,
                         source = src,
                         stats = computeStats clk groups',
                         groups = groups' \<rparr>)))"

definition mergeMasterData :: "clock \<Rightarrow> MasterData \<Rightarrow> MasterData \<Rightarrow> MasterData" where
  "mergeMasterData clk existing newData =
     (let existingIds = set (map id_group (groups existing));
          newGroups = filter (\<lambda>g. id_group g \<notin> existingIds) (groups newData);
          allGroups = sortNewestFirst (groups existing @ newGroups)
      in \<lparr> schemaVersion = SCHEMA_VERSION,
           exportedAt = clk 0,
           source = source newData,
           stats = computeStats clk allGroups,
           groups = allGroups \<rparr>)"

section \<open>Search (src/commands/search.ts)\<close>

record SearchOptions =
  query :: "string option"
  urlPattern :: "string option"
  titlePattern :: "string option"
  domainFilter :: "string option"
  fromOpt :: "string option"
  toOpt :: "string option"

record GroupRef =
  ref_id :: string
  ref_createdAt :: string
  ref_title :: "string option"

record Matches =
  inTitle :: bool
  inUrl :: bool
  inDomain :: bool

record SearchResult =
  res_tab :: Tab
  res_group :: GroupRef
  res_matches :: Matches

text \<open>The two \<open>console.warn\<close> messages of \<open>matchesTab\<close>, with the pattern they
  quote.\<close>

datatype warning = InvalidTitleRegex string | InvalidUrlRegex string

text \<open>\<open>if (options.x)\<close> on an optional string: present and not empty.\<close>

definition given :: "string option \<Rightarrow> bool" where
  "given v = (case v of Some s \<Rightarrow> s \<noteq> [] | None \<Rightarrow> False)"

text \<open>\<open>s.includes(q)\<close>\<close>

fun includesStr :: "string \<Rightarrow> string \<Rightarrow> bool" where
  "includesStr [] q = (q = [])"
| "includesStr (c # cs) q = (take (length q) (c # cs) = q \<or> includesStr cs q)"

text \<open>
  \<open>matchesTab\<close>. The regular-expression engine is the parameter \<open>regExp\<close>:
  \<open>regExp p\<close> is \<open>None\<close> where \<open>new RegExp(p, 'i')\<close> throws a SyntaxError, and otherwise
  the \<open>test\<close> function of the compiled expression. The result carries the warnings
  printed, in order.
\<close>

definition matchesTab ::
  "(string \<Rightarrow> (string \<Rightarrow> bool) option) \<Rightarrow> Tab \<Rightarrow> SearchOptions \<Rightarrow> (bool \<times> Matches) \<times> warning list" where
  "matchesTab regExp tab options =
     (let inTitle0 = (given (query options)
                        \<and> includesStr (toLowerCase (title_tab tab)) (toLowerCase (the (query options))));
          inUrl0 = (given (query options)
                        \<and> includesStr (toLowerCase (url tab)) (toLowerCase (the (query options))));
          inDomain0 = (given (query options)
                        \<and> includesStr (toLowerCase (domain tab)) (toLowerCase (the (query options))));
          (inTitle1, w1) =
             (if given (titlePattern options) then
                (case regExp (the (titlePattern options)) of
                   Some test \<Rightarrow> (inTitle0 \<or> test (title_tab tab), [])
                 | None \<Rightarrow> (inTitle0, [InvalidTitleRegex (the (titlePattern options))]))
              else (inTitle0, []));
          (inUrl1, w2) =
             (if given (urlPattern options) then
                (case regExp (the (urlPattern options)) of
                   Some test \<Rightarrow> (inUrl0 \<or> test (url tab), [])
                 | None \<Rightarrow> (inUrl0, [InvalidUrlRegex (the (urlPattern options))]))
              else (inUrl0, []));
          inDomain1 =
             (if given (domainFilter options)
              then inDomain0 \<or> includesStr (toLowerCase (domain tab))
                                  (toLowerCase (the (domainFilter options)))
              else inDomain0)
      in ((inTitle1 \<or> inUrl1 \<or> inDomain1,
           \<lparr> inTitle = inTitle1, inUrl = inUrl1, inDomain = inDomain1 \<rparr>), w1 @ w2))"

text \<open>The inner loop of \<open>searchData\<close> over the tabs of one group.\<close>

fun searchTabs ::
  "(string \<Rightarrow> (string \<Rightarrow> bool) option) \<Rightarrow> SearchOptions \<Rightarrow> TabGroup \<Rightarrow> Tab list
     \<Rightarrow> SearchResult list \<times> warning list" where
  "searchTabs regExp options g [] = ([], [])"
| "searchTabs regExp options g (tab # rest) =
     (let (m, w) = matchesTab regExp tab options;
          (rs, ws) = searchTabs regExp options g rest
      in ((if fst m
           then [\<lparr> res_tab = tab,
                    res_group = \<lparr> ref_id = id_group g, ref_createdAt = createdAt g,
                                  ref_title = title_group g \<rparr>,
                    res_matches = snd m \<rparr>]
           else []) @ rs, w @ ws))"

text \<open>The outer loop, with the two bounds already parsed.\<close>

fun searchGroups ::
  "(string \<Rightarrow> int option) \<Rightarrow> (string \<Rightarrow> (string \<Rightarrow> bool) option) \<Rightarrow> SearchOptions
     \<Rightarrow> string option \<Rightarrow> string option \<Rightarrow> TabGroup list \<Rightarrow> SearchResult list \<times> warning list" where
  "searchGroups lp regExp options fromDate toDate [] = ([], [])"
| "searchGroups lp regExp options fromDate toDate (g # gs) =
     (let (rs, ws) = searchGroups lp regExp options fromDate toDate gs
      in if \<not> isDateInRange lp (createdAt g) fromDate toDate then (rs, ws)
         else (let (r, w) = searchTabs regExp options g (tabs g) in (r @ rs, w @ ws)))"

text \<open>\<open>options.x ? parseFlexibleDate(options.x, e) : undefined\<close>\<close>

definition parseBound ::
  "(string \<Rightarrow> int option) \<Rightarrow> string option \<Rightarrow> bool \<Rightarrow> string + string option" where
  "parseBound lp v endOfPeriod =
     (if given v then
        (case parseFlexibleDate lp (the v) endOfPeriod of
           Inl e \<Rightarrow> Inl e
         | Inr d \<Rightarrow> Inr (Some d))
      else Inr None)"

definition searchData ::
  "(string \<Rightarrow> int option) \<Rightarrow> (string \<Rightarrow> (string \<Rightarrow> bool) option) \<Rightarrow> MasterData \<Rightarrow> SearchOptions
     \<Rightarrow> string + (SearchResult list \<times> warning list)" where
  "searchData lp regExp masterData options =
     (case parseBound lp (fromOpt options) False of
        Inl e \<Rightarrow> Inl e
      | Inr fromDate \<Rightarrow>
          (case parseBound lp (toOpt options) True of
             Inl e \<Rightarrow> Inl e
           | Inr toDate \<Rightarrow>
               Inr (searchGroups lp regExp options fromDate toDate (groups masterData))))"

section \<open>Export (src/commands/export.ts)\<close>

datatype groupBy = Month | Week | Day

definition periodKeyOf :: "(string \<Rightarrow> int option) \<Rightarrow> int \<Rightarrow> groupBy \<Rightarrow> TabGroup \<Rightarrow> string" where
  "periodKeyOf lp tz gb g =
     (case gb of
        Month \<Rightarrow> getYearMonth (createdAt g)
      | Week \<Rightarrow> getYearWeek lp tz (createdAt g)
      | Day \<Rightarrow> getDateOnly (createdAt g))"

text \<open>\<open>periodMap.set(key, [...(periodMap.get(key) ?? []), group])\<close> on a \<open>Map\<close>, which
  keeps its keys in insertion order.\<close>

fun pushPeriod :: "string \<Rightarrow> TabGroup \<Rightarrow> (string \<times> TabGroup list) list \<Rightarrow> (string \<times> TabGroup list) list" where
  "pushPeriod k g [] = [(k, [g])]"
| "pushPeriod k g ((k', gs) # m) =
     (if k = k' then (k', gs @ [g]) # m else (k', gs) # pushPeriod k g m)"

definition groupByPeriod ::
  "(string \<Rightarrow> int option) \<Rightarrow> int \<Rightarrow> TabGroup list \<Rightarrow> groupBy \<Rightarrow> (string \<times> TabGroup list) list" where
  "groupByPeriod lp tz gs gb = foldl (\<lambda>m g. pushPeriod (periodKeyOf lp tz gb g) g m) [] gs"

text \<open>\<open>path.join\<close> on segments that are already normalized and not empty: the segments
  separated by a slash.\<close>

definition joinPath :: "string list \<Rightarrow> string" where
  "joinPath segs = foldr (\<lambda>a b. if b = [] then a else a @ ''/'' @ b) segs []"

definition getOutputPath :: "string \<Rightarrow> string \<Rightarrow> groupBy \<Rightarrow> string" where
  "getOutputPath outputDir periodKey gb =
     (let year = take 4 periodKey
      in case gb of
           Month \<Rightarrow> joinPath [outputDir, year, periodKey @ ''.md'']
         | Week \<Rightarrow> joinPath [outputDir, year, periodKey @ ''.md'']
         | Day \<Rightarrow> joinPath [outputDir, year, take 7 periodKey, periodKey @ ''.md''])"

text \<open>The date filter of \<open>exportCommand\<close>.\<close>

definition exportFilter ::
  "(string \<Rightarrow> int option) \<Rightarrow> MasterData \<Rightarrow> string option \<Rightarrow> string option \<Rightarrow> string + TabGroup list" where
  "exportFilter lp masterData fromO toO =
     (if given fromO \<or> given toO then
        (case parseBound lp fromO False of
           Inl e \<Rightarrow> Inl e
         | Inr fromDate \<Rightarrow>
             (case parseBound lp toO True of
                Inl e \<Rightarrow> Inl e
              | Inr toDate \<Rightarrow>
                  Inr (filter (\<lambda>g. isDateInRange lp (createdAt g) fromDate toDate)
                         (groups masterData))))
      else Inr (groups masterData))"

section \<open>The statistics invariant, as the specification words it\<close>

text \<open>
  \<open>totalGroups\<close> is the number of groups, \<open>totalTabs\<close> the sum of their \<open>tabCount\<close>, the
  bounds of \<open>dateRange\<close> are the least and the greatest \<open>createdAt\<close> (in the order of
  strings) or, without any group, the clock readings of the two fallback calls, and the
  groups are in descending order of \<open>createdAtEpoch\<close>.
\<close>

definition statsInvariant :: "clock \<Rightarrow> MasterData \<Rightarrow> bool" where
  "statsInvariant clk M =
     (totalGroups (stats M) = int (length (groups M))
      \<and> totalTabs (stats M) = sum_list (map tabCount (groups M))
      \<and> (if groups M = []
          then earliest (dateRange (stats M)) = clk 1 \<and> latest (dateRange (stats M)) = clk 2
          else earliest (dateRange (stats M)) = Min (set (map createdAt (groups M)))
               \<and> latest (dateRange (stats M)) = Max (set (map createdAt (groups M))))
      \<and> sorted_wrt (\<lambda>a b. createdAtEpoch a \<ge> createdAtEpoch b) (groups M))"

text \<open>
  The week key as the specification words it: the week number is
  \<open>ceil((dayOfYear + Jan1Weekday + 1) / 7)\<close>, computed from the calendar day of the year
  (0 for 1 January) and the weekday of 1 January (0 for Sunday).
\<close>

definition weekNumberSpec :: "int \<Rightarrow> int \<Rightarrow> int" where
  "weekNumberSpec dayOfYear jan1Weekday =
     \<lceil>(of_int (dayOfYear + jan1Weekday + 1) :: rat) / 7\<rceil>"

definition weekKeySpec :: "int \<Rightarrow> int \<Rightarrow> int \<Rightarrow> string" where
  "weekKeySpec year dayOfYear jan1Weekday =
     showInt year @ ''-W'' @ padStart2 (showInt (weekNumberSpec dayOfYear jan1Weekday))"

section \<open>Fixtures\<close>

text \<open>Concrete records, payloads and host functions on which the theorems below are
  instantiated.\<close>

definition fx_tab :: Tab where
  "fx_tab = \<lparr> id_tab = ''t1'', url = ''https://github.com/x'', title_tab = ''X'',
               domain = ''github.com'' \<rparr>"

definition fx_a :: TabGroup where
  "fx_a = \<lparr> id_group = ''a'', tabs = [fx_tab], createdAt = ''2023-11-14T22:13:20.000Z'',
             createdAtEpoch = 1700000000000, tabCount = 1, starred = False,
             title_group = None \<rparr>"

definition fx_a_changed :: TabGroup where
  "fx_a_changed = \<lparr> id_group = ''a'', tabs = [], createdAt = ''2025-06-16T12:00:00.000Z'',
             createdAtEpoch = 1750075200000, tabCount = 0, starred = True,
             title_group = Some ''later'' \<rparr>"

definition fx_b :: TabGroup where
  "fx_b = \<lparr> id_group = ''b'', tabs = [fx_tab], createdAt = ''2025-06-15T12:00:00.000Z'',
             createdAtEpoch = 1749988800000, tabCount = 1, starred = False,
             title_group = None \<rparr>"

definition fx_source :: Source where
  "fx_source = \<lparr> browser = Chrome, extensionId = ''chphlpgkkbolifaimnlloiipkdnihall'',
                  extractionMethod = Import \<rparr>"

definition fx_clock1 :: clock where
  "fx_clock1 = (\<lambda>k. ''2025-07-01T00:00:00.000Z'')"

definition fx_clock2 :: clock where
  "fx_clock2 = (\<lambda>k. ''2025-07-02T00:00:00.000Z'')"

definition fx_existing :: MasterData where
  "fx_existing = \<lparr> schemaVersion = ''1.0.0'', exportedAt = ''2025-06-01T00:00:00.000Z'',
      source = fx_source,
      stats = \<lparr> totalGroups = 1, totalTabs = 1,
                dateRange = \<lparr> earliest = ''2023-11-14T22:13:20.000Z'',
                              latest = ''2023-11-14T22:13:20.000Z'' \<rparr> \<rparr>,
      groups = [fx_a] \<rparr>"

definition fx_incoming :: MasterData where
  "fx_incoming = \<lparr> schemaVersion = ''1.0.0'', exportedAt = ''2025-06-20T00:00:00.000Z'',
      source = fx_source,
      stats = \<lparr> totalGroups = 2, totalTabs = 1,
                dateRange = \<lparr> earliest = ''2025-06-15T12:00:00.000Z'',
                              latest = ''2025-06-16T12:00:00.000Z'' \<rparr> \<rparr>,
      groups = [fx_a_changed, fx_b] \<rparr>"

text \<open>A host URL parser that knows one address, and the payload
  \<open>{tabGroups: [{id: "a", createDate: 1700000000000, tabsMeta: [{id: "t1",
  url: "https://github.com/x", title: "X"}]}]}\<close>.\<close>

definition fx_hostname :: "string \<Rightarrow> string option" where
  "fx_hostname u = (if u = ''https://github.com/x'' then Some ''github.com'' else None)"

definition fx_rawTab :: json where
  "fx_rawTab = JObj [(''id'', JStr ''t1''), (''url'', JStr ''https://github.com/x''),
                     (''title'', JStr ''X'')]"

definition fx_rawGroup :: json where
  "fx_rawGroup = JObj [(''id'', JStr ''a''), (''createDate'', JNum (Finite 1700000000000)),
                       (''tabsMeta'', JArr [fx_rawTab])]"

definition fx_raw :: json where
  "fx_raw = JObj [(''tabGroups'', JArr [fx_rawGroup])]"

definition fx_rawEmpty :: json where
  "fx_rawEmpty = JObj [(''tabGroups'', JArr [])]"

text \<open>A \<open>JSON.parse\<close> that accepts nothing, for payloads without encoded strings.\<close>

definition fx_noJson :: "string \<Rightarrow> json option" where
  "fx_noJson s = None"

definition fx_parsed :: MasterData where
  "fx_parsed = \<lparr> schemaVersion = ''1.0.0'', exportedAt = ''2025-07-01T00:00:00.000Z'',
      source = fx_source,
      stats = \<lparr> totalGroups = 1, totalTabs = 1,
                dateRange = \<lparr> earliest = ''2023-11-14T22:13:20.000Z'',
                              latest = ''2023-11-14T22:13:20.000Z'' \<rparr> \<rparr>,
      groups = [fx_a] \<rparr>"

text \<open>
  A doubly encoded payload: the text of the array of groups, the text of a \<open>state\<close>
  object that holds that text as a JSON string, and a \<open>JSON.parse\<close> that knows these
  texts and rejects everything else, \<open>{oops\<close> included.
\<close>

definition DQ :: char where
  "DQ = CHR 0x22"

definition BS :: char where
  "BS = CHR 0x5C"

definition quoted :: "string \<Rightarrow> string" where
  "quoted s = DQ # s @ [DQ]"

definition jsonEscape :: "string \<Rightarrow> string" where
  "jsonEscape s = concat (map (\<lambda>c. if c = DQ \<or> c = BS then [BS, c] else [c]) s)"

definition fx_groupsText :: string where
  "fx_groupsText =
     ''[{'' @ quoted ''id'' @ '':'' @ quoted ''a'' @ '','' @ quoted ''createDate''
     @ '':1700000000000,'' @ quoted ''tabsMeta'' @ '':[{'' @ quoted ''id'' @ '':''
     @ quoted ''t1'' @ '','' @ quoted ''url'' @ '':'' @ quoted ''https://github.com/x''
     @ '','' @ quoted ''title'' @ '':'' @ quoted ''X'' @ ''}]}]''"

definition fx_stateText :: string where
  "fx_stateText = ''{'' @ quoted ''tabGroups'' @ '':'' @ quoted (jsonEscape fx_groupsText) @ ''}''"

definition fx_stateTextBad :: string where
  "fx_stateTextBad = ''{'' @ quoted ''tabGroups'' @ '':'' @ quoted ''{oops'' @ ''}''"

definition fx_jsonParse :: "string \<Rightarrow> json option" where
  "fx_jsonParse s =
     (if s = fx_stateText then Some (JObj [(''tabGroups'', JStr fx_groupsText)])
      else if s = fx_groupsText then Some (JArr [fx_rawGroup])
      else if s = fx_stateTextBad then Some (JObj [(''tabGroups'', JStr ''{oops'')])
      else None)"

definition fx_encBoth :: json where
  "fx_encBoth = JObj [(''state'', JStr fx_stateText)]"

definition fx_encInner :: json where
  "fx_encInner = JObj [(''state'', JObj [(''tabGroups'', JStr fx_groupsText)])]"

definition fx_encTop :: json where
  "fx_encTop = JObj [(''tabGroups'', JStr fx_groupsText)]"

definition fx_plainState :: json where
  "fx_plainState = JObj [(''state'', JObj [(''tabGroups'', JArr [fx_rawGroup])])]"

definition fx_badState :: json where
  "fx_badState = JObj [(''state'', JStr ''{oops'')]"

definition fx_badInner :: json where
  "fx_badInner = JObj [(''state'', JObj [(''tabGroups'', JStr ''{oops'')])]"

definition fx_badBoth :: json where
  "fx_badBoth = JObj [(''state'', JStr fx_stateTextBad)]"

definition fx_badTop :: json where
  "fx_badTop = JObj [(''tabGroups'', JStr ''{oops'')]"

text \<open>A group without \<open>createDate\<close>, and two payloads that hold it next to a well-formed
  group.\<close>

definition fx_badGroup :: json where
  "fx_badGroup = JObj [(''id'', JStr ''c''), (''tabsMeta'', JArr [])]"

definition fx_mixedTop :: json where
  "fx_mixedTop = JObj [(''tabGroups'', JArr [fx_rawGroup, fx_badGroup])]"

definition fx_mixedState :: json where
  "fx_mixedState = JObj [(''state'', JObj [(''tabGroups'', JArr [fx_rawGroup, fx_badGroup])])]"

text \<open>A host date parser that recognises no string beyond the ISO form, a record with
  one group of June 2025 and one with a group of 29 February of the year 0000.\<close>

definition fx_noLegacy :: "string \<Rightarrow> int option" where
  "fx_noLegacy s = None"

definition fx_june :: MasterData where
  "fx_june = fx_existing \<lparr> groups := [fx_b] \<rparr>"

definition fx_leapGroup :: TabGroup where
  "fx_leapGroup = \<lparr> id_group = ''leap'', tabs = [fx_tab],
             createdAt = ''0000-02-29T12:00:00.000Z'',
             createdAtEpoch = - 62162078400000, tabCount = 1, starred = False,
             title_group = None \<rparr>"

definition fx_leap :: MasterData where
  "fx_leap = fx_existing \<lparr> groups := [fx_leapGroup] \<rparr>"

text \<open>A group saved at noon (UTC) on Saturday 4 January 2025.\<close>

definition fx_saturdayNoon :: TabGroup where
  "fx_saturdayNoon = \<lparr> id_group = ''s'', tabs = [fx_tab],
             createdAt = ''2025-01-04T12:00:00.000Z'',
             createdAtEpoch = 1735992000000, tabCount = 1, starred = False,
             title_group = None \<rparr>"

text \<open>A regular-expression engine that rejects the pattern \<open>[\<close> and reads every other
  pattern as literal text, two sets of search options with that pattern, and the search
  result for the tab of \<open>fx_b\<close>.\<close>

definition fx_regExp :: "string \<Rightarrow> (string \<Rightarrow> bool) option" where
  "fx_regExp p = (if p = ''['' then None
                  else Some (\<lambda>s. includesStr (toLowerCase s) (toLowerCase p)))"

definition fx_options :: SearchOptions where
  "fx_options = \<lparr> query = Some ''github'', urlPattern = None, titlePattern = Some ''['',
                   domainFilter = None, fromOpt = Some ''2025-06'', toOpt = None \<rparr>"

definition fx_optionsUrl :: SearchOptions where
  "fx_optionsUrl = \<lparr> query = None, urlPattern = Some ''['', titlePattern = Some ''x'',
                      domainFilter = None, fromOpt = None, toOpt = None \<rparr>"

definition fx_result :: "bool \<Rightarrow> bool \<Rightarrow> bool \<Rightarrow> SearchResult" where
  "fx_result t u d = \<lparr> res_tab = fx_tab,
       res_group = \<lparr> ref_id = ''b'', ref_createdAt = ''2025-06-15T12:00:00.000Z'',
                     ref_title = None \<rparr>,
       res_matches = \<lparr> inTitle = t, inUrl = u, inDomain = d \<rparr> \<rparr>"

text \<open>Search options whose lower date bound is the text \<open>garbageT\<close>.\<close>

definition fx_optionsGarbage :: SearchOptions where
  "fx_optionsGarbage = \<lparr> query = Some ''github'', urlPattern = None, titlePattern = None,
                          domainFilter = None, fromOpt = Some ''garbageT'', toOpt = None \<rparr>"

text \<open>A payload whose only tab has the address \<open>Example.COM/x\<close>, without a
  scheme.\<close>

definition fx_rawUpper :: json where
  "fx_rawUpper = JObj [(''tabGroups'', JArr [JObj [(''id'', JStr ''u''),
       (''createDate'', JNum (Finite 1700000000000)),
       (''tabsMeta'', JArr [JObj [(''id'', JStr ''t2''), (''url'', JStr ''Example.COM/x''),
                                   (''title'', JStr ''Example'')]])]])]"

section \<open>Properties of merge\<close>

lemma groups_mergeMasterData:
  "groups (mergeMasterData clk E N) =
     sortNewestFirst (groups E @
       filter (\<lambda>g. id_group g \<notin> set (map id_group (groups E))) (groups N))"
  by (simp add: mergeMasterData_def Let_def)

lemma set_sortNewestFirst: "set (sortNewestFirst gs) = set gs"
  by (simp add: sortNewestFirst_def)

lemma mset_sortNewestFirst: "mset (sortNewestFirst gs) = mset gs"
  by (simp add: sortNewestFirst_def)

lemma sortNewestFirst_idem: "sortNewestFirst (sortNewestFirst gs) = sortNewestFirst gs"
  unfolding sortNewestFirst_def
  by (rule sort_key_id_if_sorted) simp

lemma sortNewestFirst_descending:
  "sorted_wrt (\<lambda>a b. createdAtEpoch a \<ge> createdAtEpoch b) (sortNewestFirst gs)"
proof -
  have "sorted (map (\<lambda>g. - createdAtEpoch g) (sortNewestFirst gs))"
    by (simp add: sortNewestFirst_def)
  then show ?thesis
    by (simp add: sorted_wrt_map)
qed

text \<open>
  C1. Merging keeps every existing group as it is and adds exactly the incoming groups
  whose id does not occur among the existing ones: the groups of the result are, as a
  set and as a multiset, the existing groups together with the incoming groups of a new
  id, and a group of the result whose id occurs among the existing groups is one of the
  existing groups, never the incoming copy.
\<close>

theorem mergeMasterData_existing_wins:
  "set (groups (mergeMasterData clk E N)) =
     set (groups E) \<union> {g \<in> set (groups N). id_group g \<notin> id_group ` set (groups E)}
   \<and> mset (groups (mergeMasterData clk E N)) =
     mset (groups E)
       + filter_mset (\<lambda>g. id_group g \<notin> id_group ` set (groups E)) (mset (groups N))
   \<and> (\<forall>h \<in> set (groups (mergeMasterData clk E N)).
        id_group h \<in> id_group ` set (groups E) \<longrightarrow> h \<in> set (groups E))"
  by (auto simp: groups_mergeMasterData set_sortNewestFirst mset_sortNewestFirst)

theorem mergeMasterData_existing_wins_witness:
  "groups (mergeMasterData fx_clock1 fx_existing fx_incoming) = [fx_b, fx_a]
   \<and> fx_a_changed \<in> set (groups fx_incoming)
   \<and> id_group fx_a_changed \<in> id_group ` set (groups fx_existing)
   \<and> fx_a_changed \<notin> set (groups fx_existing)
   \<and> fx_a_changed \<notin> set (groups (mergeMasterData fx_clock1 fx_existing fx_incoming))"
proof -
  have g: "groups (mergeMasterData fx_clock1 fx_existing fx_incoming) = [fx_b, fx_a]"
    by code_simp
  have i: "fx_a_changed \<in> set (groups fx_incoming)"
    by (simp add: fx_incoming_def)
  have d: "id_group fx_a_changed \<in> id_group ` set (groups fx_existing)"
    by (simp add: fx_existing_def fx_a_def fx_a_changed_def)
  have n: "fx_a_changed \<notin> set (groups fx_existing)"
    by (simp add: fx_existing_def fx_a_def fx_a_changed_def)
  from mergeMasterData_existing_wins [of fx_clock1 fx_existing fx_incoming] d n
  have "fx_a_changed \<notin> set (groups (mergeMasterData fx_clock1 fx_existing fx_incoming))"
    by blast
  with g i d n show ?thesis by blast
qed

lemma second_merge_adds_nothing:
  "filter (\<lambda>g. id_group g \<notin> set (map id_group (groups (mergeMasterData c E N)))) (groups N)
     = []"
  by (auto simp: filter_empty_conv groups_mergeMasterData set_sortNewestFirst)

lemma groups_merge_twice:
  "groups (mergeMasterData c2 (mergeMasterData c1 E N) N) = groups (mergeMasterData c1 E N)"
proof -
  have "groups (mergeMasterData c2 (mergeMasterData c1 E N) N)
        = sortNewestFirst (groups (mergeMasterData c1 E N) @ [])"
    using second_merge_adds_nothing [of c1 E N]
    by (simp add: groups_mergeMasterData [of c2])
  also have "\<dots> = groups (mergeMasterData c1 E N)"
    by (simp add: groups_mergeMasterData [of c1] sortNewestFirst_idem)
  finally show ?thesis .
qed

lemma groups_merge_clock: "groups (mergeMasterData c2 E N) = groups (mergeMasterData c1 E N)"
  by (simp add: groups_mergeMasterData)

lemma merge_decompose:
  "mergeMasterData c E N =
     \<lparr> schemaVersion = SCHEMA_VERSION, exportedAt = c 0, source = source N,
       stats = computeStats c (groups (mergeMasterData c E N)),
       groups = groups (mergeMasterData c E N) \<rparr>"
  by (simp add: mergeMasterData_def Let_def)

lemma merge_twice_eq:
  "mergeMasterData c2 (mergeMasterData c1 E N) N = mergeMasterData c2 E N"
proof -
  have g: "groups (mergeMasterData c2 (mergeMasterData c1 E N) N)
           = groups (mergeMasterData c2 E N)"
    using groups_merge_twice [of c2 c1 E N] groups_merge_clock [of c2 E N c1] by simp
  show ?thesis
    apply (subst merge_decompose [of c2 "mergeMasterData c1 E N" N])
    apply (subst merge_decompose [of c2 E N])
    apply (simp only: g)
    done
qed

lemma computeStats_nonempty_clock:
  "gs \<noteq> [] \<Longrightarrow> computeStats c2 gs = computeStats c1 gs"
proof -
  assume "gs \<noteq> []"
  then have "sort (map createdAt gs) \<noteq> []"
    by (metis length_sort length_map length_0_conv)
  then show ?thesis
    by (cases "sort (map createdAt gs)") (simp_all add: computeStats_def sortedDates_def Let_def)
qed

text \<open>
  C2, as stated: the second merge of the same batch returns the very value the first
  merge returned. It does not when the clock has advanced between the two calls, since
  \<open>exportedAt\<close> is read from the clock at every call.
\<close>

theorem merge_idempotent_counterexample:
  "mergeMasterData fx_clock2 (mergeMasterData fx_clock1 fx_existing fx_incoming) fx_incoming
     \<noteq> mergeMasterData fx_clock1 fx_existing fx_incoming"
  by code_simp

text \<open>
  C2, amended. Merging the same incoming batch a second time, at a clock \<open>c2\<close>, into the
  result of the first merge (made at a clock \<open>c1\<close>) adds no group: no incoming group
  passes the duplicate filter, the sequence of groups, the source and the schema version
  are those of the first result, and so are the statistics as soon as there is a group.
  The whole second result is what one merge at \<open>c2\<close> returns; with the same clock
  readings it is the first result itself.
\<close>

theorem merge_idempotent_up_to_clock:
  "filter (\<lambda>g. id_group g \<notin> set (map id_group (groups (mergeMasterData c1 E N)))) (groups N)
     = []
   \<and> groups (mergeMasterData c2 (mergeMasterData c1 E N) N) = groups (mergeMasterData c1 E N)
   \<and> source (mergeMasterData c2 (mergeMasterData c1 E N) N) = source (mergeMasterData c1 E N)
   \<and> schemaVersion (mergeMasterData c2 (mergeMasterData c1 E N) N)
       = schemaVersion (mergeMasterData c1 E N)
   \<and> (groups (mergeMasterData c1 E N) \<noteq> [] \<longrightarrow>
        stats (mergeMasterData c2 (mergeMasterData c1 E N) N) = stats (mergeMasterData c1 E N))
   \<and> mergeMasterData c2 (mergeMasterData c1 E N) N = mergeMasterData c2 E N
   \<and> mergeMasterData c1 (mergeMasterData c1 E N) N = mergeMasterData c1 E N"
proof -
  have s: "groups (mergeMasterData c1 E N) \<noteq> [] \<longrightarrow>
        stats (mergeMasterData c2 (mergeMasterData c1 E N) N) = stats (mergeMasterData c1 E N)"
  proof
    assume ne: "groups (mergeMasterData c1 E N) \<noteq> []"
    have "stats (mergeMasterData c2 (mergeMasterData c1 E N) N)
          = computeStats c2 (groups (mergeMasterData c2 (mergeMasterData c1 E N) N))"
      by (subst merge_decompose) simp
    also have "\<dots> = computeStats c2 (groups (mergeMasterData c1 E N))"
      by (simp only: groups_merge_twice)
    also have "\<dots> = computeStats c1 (groups (mergeMasterData c1 E N))"
      using ne by (rule computeStats_nonempty_clock)
    also have "\<dots> = stats (mergeMasterData c1 E N)"
      by (subst (2) merge_decompose) simp
    finally show "stats (mergeMasterData c2 (mergeMasterData c1 E N) N)
                  = stats (mergeMasterData c1 E N)" .
  qed
  have src: "source (mergeMasterData c2 (mergeMasterData c1 E N) N)
             = source (mergeMasterData c1 E N)"
    by (simp add: mergeMasterData_def Let_def)
  have sv: "schemaVersion (mergeMasterData c2 (mergeMasterData c1 E N) N)
            = schemaVersion (mergeMasterData c1 E N)"
    by (simp add: mergeMasterData_def Let_def)
  show ?thesis
    using second_merge_adds_nothing [of c1 E N] groups_merge_twice [of c2 c1 E N]
      src sv s merge_twice_eq [of c2 c1 E N] merge_twice_eq [of c1 c1 E N]
    by blast
qed

theorem merge_idempotent_up_to_clock_witness:
  "groups (mergeMasterData fx_clock1 fx_existing fx_incoming) \<noteq> []
   \<and> groups (mergeMasterData fx_clock2 (mergeMasterData fx_clock1 fx_existing fx_incoming)
        fx_incoming) = [fx_b, fx_a]
   \<and> stats (mergeMasterData fx_clock2 (mergeMasterData fx_clock1 fx_existing fx_incoming)
        fx_incoming) = stats (mergeMasterData fx_clock1 fx_existing fx_incoming)"
proof -
  have g: "groups (mergeMasterData fx_clock1 fx_existing fx_incoming) = [fx_b, fx_a]"
    by code_simp
  then have ne: "groups (mergeMasterData fx_clock1 fx_existing fx_incoming) \<noteq> []"
    by simp
  note t = merge_idempotent_up_to_clock [of fx_clock1 fx_existing fx_incoming fx_clock2]
  from t have a: "groups (mergeMasterData fx_clock2
      (mergeMasterData fx_clock1 fx_existing fx_incoming) fx_incoming)
      = groups (mergeMasterData fx_clock1 fx_existing fx_incoming)"
    by blast
  from t ne have b: "stats (mergeMasterData fx_clock2
      (mergeMasterData fx_clock1 fx_existing fx_incoming) fx_incoming)
      = stats (mergeMasterData fx_clock1 fx_existing fx_incoming)"
    by blast
  from a b g ne show ?thesis by (simp only: simp_thms)
qed

section \<open>The statistics invariant\<close>

lemma sumTabCount_foldl: "foldl (\<lambda>s g. s + tabCount g) a gs = a + sum_list (map tabCount gs)"
  by (induction gs arbitrary: a) simp_all

lemma sumTabCount_sum_list: "sumTabCount gs = sum_list (map tabCount gs)"
  by (simp add: sumTabCount_def sumTabCount_foldl)

lemma hd_sorted_Min:
  fixes ys :: "('a::linorder) list"
  assumes "sorted ys" "ys \<noteq> []"
  shows "hd ys = Min (set ys)"
proof -
  obtain y rest where ys: "ys = y # rest" using assms(2) by (cases ys) auto
  with assms(1) have "\<forall>z\<in>set ys. y \<le> z" by auto
  then have "Min (set ys) = y"
    using ys by (intro Min_eqI) auto
  with ys show ?thesis by simp
qed

lemma sorted_le_last:
  fixes ys :: "('a::linorder) list"
  shows "sorted ys \<Longrightarrow> z \<in> set ys \<Longrightarrow> z \<le> last ys"
  by (induction ys) auto

lemma last_sorted_Max:
  fixes ys :: "('a::linorder) list"
  assumes "sorted ys" "ys \<noteq> []"
  shows "last ys = Max (set ys)"
proof -
  have "\<forall>z\<in>set ys. z \<le> last ys" using assms(1) by (simp add: sorted_le_last)
  then have "Max (set ys) = last ys"
    using assms(2) by (intro Max_eqI) auto
  then show ?thesis by simp
qed

lemma computeStats_invariant:
  assumes "sorted_wrt (\<lambda>a b. createdAtEpoch a \<ge> createdAtEpoch b) gs"
  shows "statsInvariant clk \<lparr> schemaVersion = v, exportedAt = e, source = s,
                              stats = computeStats clk gs, groups = gs \<rparr>"
proof (cases "gs = []")
  case True
  then show ?thesis
    by (simp add: statsInvariant_def computeStats_def sortedDates_def sumTabCount_def)
next
  case False
  let ?ds = "sort (map createdAt gs)"
  have ne: "?ds \<noteq> []" using False by (metis length_sort length_map length_0_conv)
  have h: "hd ?ds = Min (set (map createdAt gs))"
    using hd_sorted_Min [of ?ds] ne by simp
  have l: "last ?ds = Max (set (map createdAt gs))"
    using last_sorted_Max [of ?ds] ne by simp
  have e: "(case ?ds of [] \<Rightarrow> clk 1 | d # _ \<Rightarrow> d) = hd ?ds"
    using ne by (cases ?ds) auto
  show ?thesis
    using False assms ne h l e
    by (simp add: statsInvariant_def computeStats_def sortedDates_def sumTabCount_sum_list Let_def)
qed

lemma statsInvariant_merge: "statsInvariant clk (mergeMasterData clk E N)"
  unfolding mergeMasterData_def Let_def
  by (rule computeStats_invariant) (rule sortNewestFirst_descending)

lemma statsInvariant_parse:
  assumes "parseOneTabJson jp hp clk raw src = Inr M"
  shows "statsInvariant clk M"
proof -
  from assms obtain gs where M: "M = \<lparr> schemaVersion = SCHEMA_VERSION, exportedAt = clk 0,
      source = src, stats = computeStats clk (sortNewestFirst gs),
      groups = sortNewestFirst gs \<rparr>"
    by (auto simp: parseOneTabJson_def Let_def split: sum.splits)
  show ?thesis unfolding M
    by (rule computeStats_invariant) (rule sortNewestFirst_descending)
qed

lemma parse_empty:
  assumes "validateOneTabExport jp raw = Inr []"
  shows "\<exists>M. parseOneTabJson jp hp clk raw src = Inr M \<and> groups M = []
           \<and> earliest (dateRange (stats M)) = clk 1 \<and> latest (dateRange (stats M)) = clk 2"
  using assms
  by (simp add: parseOneTabJson_def sortNewestFirst_def computeStats_def sortedDates_def Let_def)

text \<open>
  C3. Every MasterData that \<open>parseOneTabJson\<close> returns, and every result of
  \<open>mergeMasterData\<close>, satisfies the statistics invariant: \<open>totalGroups\<close> is the number of
  groups, \<open>totalTabs\<close> the sum of their \<open>tabCount\<close>, \<open>dateRange\<close> runs from the least to
  the greatest \<open>createdAt\<close>, and the groups are sorted newest first. A payload with zero
  groups does not fail: normalization returns a MasterData without groups whose two
  bounds are the clock readings of that call.
\<close>

theorem stats_invariant_after_normalize_and_merge:
  "(parseOneTabJson jp hp clk raw src = Inr M \<longrightarrow> statsInvariant clk M)
   \<and> statsInvariant clk (mergeMasterData clk E N)
   \<and> (validateOneTabExport jp raw = Inr [] \<longrightarrow>
        (\<exists>M'. parseOneTabJson jp hp clk raw src = Inr M' \<and> groups M' = []
           \<and> earliest (dateRange (stats M')) = clk 1
           \<and> latest (dateRange (stats M')) = clk 2))"
  using statsInvariant_parse [of jp hp clk raw src M] statsInvariant_merge [of clk E N]
    parse_empty [of jp raw hp clk src]
  by blast

theorem stats_invariant_after_normalize_and_merge_witness:
  "parseOneTabJson fx_noJson fx_hostname fx_clock1 fx_raw fx_source = Inr fx_parsed
   \<and> statsInvariant fx_clock1 fx_parsed
   \<and> statsInvariant fx_clock1 (mergeMasterData fx_clock1 fx_existing fx_incoming)
   \<and> validateOneTabExport fx_noJson fx_rawEmpty = Inr []
   \<and> (\<exists>M'. parseOneTabJson fx_noJson fx_hostname fx_clock1 fx_rawEmpty fx_source = Inr M'
         \<and> groups M' = []
         \<and> earliest (dateRange (stats M')) = fx_clock1 1
         \<and> latest (dateRange (stats M')) = fx_clock1 2)"
proof -
  have p: "parseOneTabJson fx_noJson fx_hostname fx_clock1 fx_raw fx_source = Inr fx_parsed"
    by code_simp
  have v: "validateOneTabExport fx_noJson fx_rawEmpty = Inr []"
    by code_simp
  from p stats_invariant_after_normalize_and_merge
         [of fx_noJson fx_hostname fx_clock1 fx_raw fx_source fx_parsed fx_existing fx_incoming]
  have a: "statsInvariant fx_clock1 fx_parsed
     \<and> statsInvariant fx_clock1 (mergeMasterData fx_clock1 fx_existing fx_incoming)"
    by blast
  from v stats_invariant_after_normalize_and_merge
         [of fx_noJson fx_hostname fx_clock1 fx_rawEmpty fx_source fx_parsed fx_existing
             fx_incoming]
  have b: "\<exists>M'. parseOneTabJson fx_noJson fx_hostname fx_clock1 fx_rawEmpty fx_source = Inr M'
         \<and> groups M' = []
         \<and> earliest (dateRange (stats M')) = fx_clock1 1
         \<and> latest (dateRange (stats M')) = fx_clock1 2"
    by blast
  from p v a b show ?thesis by blast
qed

section \<open>Validation of raw exports\<close>

lemma getProp_spreadWith:
  "getProp (spreadWith j k v) k' = (if k' = k then Some v else getProp j k')"
  by (cases j) (simp_all add: getProp_def spreadWith_def update_conv')

lemma isObject_spreadWith: "isObject (spreadWith j k v)"
  by (cases j) (simp_all add: isObject_def spreadWith_def)

lemma takeTabGroups_cong:
  "getProp a ''tabGroups'' = getProp b ''tabGroups'' \<Longrightarrow> takeTabGroups a = takeTabGroups b"
  by (simp add: takeTabGroups_def)

lemma fromTop_via_prop:
  "fromTop jp obj =
     (case getProp obj ''tabGroups'' of
        Some (JStr t) \<Rightarrow>
          (case jp t of
             None \<Rightarrow> Inl ERR_TABGROUPS_JSON
           | Some (JArr gs) \<Rightarrow> (if \<not> list_all isValidGroup gs then Inl ERR_ENTRIES else Inr gs)
           | Some _ \<Rightarrow> Inl ERR_SHAPE)
      | Some (JArr gs) \<Rightarrow> (if \<not> list_all isValidGroup gs then Inl ERR_ENTRIES else Inr gs)
      | _ \<Rightarrow> Inl ERR_SHAPE)"
  by (simp add: fromTop_def reparseField_def takeTabGroups_def getProp_spreadWith
           split: option.splits json.splits)

lemma fromTop_cong:
  "getProp a ''tabGroups'' = getProp b ''tabGroups'' \<Longrightarrow> fromTop jp a = fromTop jp b"
  by (simp add: fromTop_via_prop)

lemma fromState_via_prop:
  "fromState jp obj =
     (case getProp obj ''state'' of
        Some st \<Rightarrow>
          (if isObject st then
             (case getProp st ''tabGroups'' of
                Some (JStr t) \<Rightarrow>
                  (case jp t of
                     None \<Rightarrow> Some (Inl ERR_TABGROUPS_JSON)
                   | Some (JArr gs) \<Rightarrow>
                       Some (if \<not> list_all isValidGroup gs then Inl ERR_ENTRIES else Inr gs)
                   | Some _ \<Rightarrow> None)
              | Some (JArr gs) \<Rightarrow>
                  Some (if \<not> list_all isValidGroup gs then Inl ERR_ENTRIES else Inr gs)
              | _ \<Rightarrow> None)
           else None)
      | None \<Rightarrow> None)"
  by (simp add: fromState_def reparseField_def takeTabGroups_def getProp_spreadWith
           split: option.splits json.splits)

lemma fromState_cong:
  "getProp a ''state'' = getProp b ''state'' \<Longrightarrow> fromState jp a = fromState jp b"
  by (simp add: fromState_def)

text \<open>The validator in terms of the two property reads.\<close>

lemma validate_via_props:
  "isObject data \<Longrightarrow> validateOneTabExport jp data =
     (case getProp data ''state'' of
        Some (JStr s) \<Rightarrow>
          (case jp s of
             None \<Rightarrow> Inl ERR_STATE_JSON
           | Some v \<Rightarrow>
               (case fromState jp (spreadWith data ''state'' v) of
                  Some r \<Rightarrow> r
                | None \<Rightarrow> fromTop jp data))
      | _ \<Rightarrow> (case fromState jp data of Some r \<Rightarrow> r | None \<Rightarrow> fromTop jp data))"
proof -
  assume o: "isObject data"
  have t: "\<And>v. fromTop jp (spreadWith data ''state'' v) = fromTop jp data"
    by (rule fromTop_cong) (simp add: getProp_spreadWith)
  show ?thesis
    using o by (simp add: validateOneTabExport_def reparseField_def t split: option.splits json.splits)
qed

lemma getProp_Some_isObject: "getProp data k = Some x \<Longrightarrow> isObject data"
  by (cases data) (simp_all add: getProp_def isObject_def)

lemma not_isStr_cases: "\<not> isStr (Some v) \<Longrightarrow> (case v of JStr x \<Rightarrow> f x | _ \<Rightarrow> g) = g"
  by (cases v) (simp_all add: isStr_def)

lemma validate_nonstring_state:
  "isObject data \<Longrightarrow> \<not> isStr (getProp data ''state'') \<Longrightarrow>
   validateOneTabExport jp data =
     (case fromState jp data of Some r \<Rightarrow> r | None \<Rightarrow> fromTop jp data)"
  by (simp add: validate_via_props isStr_def split: option.splits json.splits)

lemma reparse_state_ok:
  assumes "getProp data ''state'' = Some (JStr s)" "jp s = Some v" "\<not> isStr (Some v)"
  shows "validateOneTabExport jp data = validateOneTabExport jp (spreadWith data ''state'' v)"
proof -
  have o: "isObject data" using assms(1) by (rule getProp_Some_isObject)
  have t: "fromTop jp (spreadWith data ''state'' v) = fromTop jp data"
    by (rule fromTop_cong) (simp add: getProp_spreadWith)
  have l: "validateOneTabExport jp data =
       (case fromState jp (spreadWith data ''state'' v) of Some r \<Rightarrow> r | None \<Rightarrow> fromTop jp data)"
    using assms by (simp add: validate_via_props [OF o])
  have r: "validateOneTabExport jp (spreadWith data ''state'' v) =
       (case fromState jp (spreadWith data ''state'' v) of Some r \<Rightarrow> r | None \<Rightarrow> fromTop jp data)"
    using assms(3)
    by (simp add: validate_nonstring_state [OF isObject_spreadWith] getProp_spreadWith t
          split: option.splits)
  show ?thesis by (simp only: l r)
qed

lemma fromState_inner_ok:
  assumes "getProp a ''state'' = Some st" "isObject st" "getProp st ''tabGroups'' = Some (JStr t)"
    "jp t = Some w" "\<not> isStr (Some w)"
    "getProp b ''state'' = Some (spreadWith st ''tabGroups'' w)"
  shows "fromState jp a = fromState jp b"
  using assms
  by (cases w) (simp_all add: fromState_via_prop getProp_spreadWith isObject_spreadWith isStr_def)

lemma reparse_inner_ok:
  assumes "getProp data ''state'' = Some st" "isObject st"
    "getProp st ''tabGroups'' = Some (JStr t)" "jp t = Some w" "\<not> isStr (Some w)"
  shows "validateOneTabExport jp data =
         validateOneTabExport jp (spreadWith data ''state'' (spreadWith st ''tabGroups'' w))"
proof -
  let ?d = "spreadWith data ''state'' (spreadWith st ''tabGroups'' w)"
  have o: "isObject data" using assms(1) by (rule getProp_Some_isObject)
  have ns: "\<not> isStr (Some st)" using assms(2) by (cases st) (simp_all add: isObject_def isStr_def)
  have ns': "\<not> isStr (Some (spreadWith st ''tabGroups'' w))"
    by (cases st) (simp_all add: spreadWith_def isStr_def)
  have t: "fromTop jp ?d = fromTop jp data"
    by (rule fromTop_cong) (simp add: getProp_spreadWith)
  have f: "fromState jp data = fromState jp ?d"
    using assms by (rule fromState_inner_ok) (simp add: getProp_spreadWith)
  have l: "validateOneTabExport jp data =
       (case fromState jp data of Some r \<Rightarrow> r | None \<Rightarrow> fromTop jp data)"
    using assms(1) ns by (simp add: validate_nonstring_state [OF o])
  have r: "validateOneTabExport jp ?d =
       (case fromState jp ?d of Some r \<Rightarrow> r | None \<Rightarrow> fromTop jp ?d)"
    using ns' by (simp add: validate_nonstring_state [OF isObject_spreadWith] getProp_spreadWith)
  show ?thesis by (simp only: l r f t)
qed

lemma spreadWith_twice: "spreadWith (spreadWith j k v) k v' = spreadWith j k v'"
  by (cases j) (simp_all add: spreadWith_def update_last)

lemma reparse_both_ok:
  assumes "getProp data ''state'' = Some (JStr s)" "jp s = Some st" "isObject st"
    "getProp st ''tabGroups'' = Some (JStr t)" "jp t = Some w" "\<not> isStr (Some w)"
  shows "validateOneTabExport jp data =
         validateOneTabExport jp (spreadWith data ''state'' (spreadWith st ''tabGroups'' w))"
proof -
  have ns: "\<not> isStr (Some st)" using assms(3) by (cases st) (simp_all add: isObject_def isStr_def)
  have "validateOneTabExport jp data = validateOneTabExport jp (spreadWith data ''state'' st)"
    using assms(1,2) ns by (rule reparse_state_ok)
  also have "\<dots> = validateOneTabExport jp
       (spreadWith (spreadWith data ''state'' st) ''state'' (spreadWith st ''tabGroups'' w))"
    using assms(3-6) by (intro reparse_inner_ok) (simp_all add: getProp_spreadWith)
  finally show ?thesis by (simp add: spreadWith_twice)
qed

lemma reparse_top_ok:
  assumes "getProp data ''tabGroups'' = Some (JStr t)" "jp t = Some w" "\<not> isStr (Some w)"
  shows "validateOneTabExport jp data = validateOneTabExport jp (spreadWith data ''tabGroups'' w)"
proof -
  let ?d = "spreadWith data ''tabGroups'' w"
  have o: "isObject data" using assms(1) by (rule getProp_Some_isObject)
  have s: "getProp ?d ''state'' = getProp data ''state''" by (simp add: getProp_spreadWith)
  have fs: "fromState jp ?d = fromState jp data"
    by (rule fromState_cong) (rule s)
  have fs': "\<And>v. fromState jp (spreadWith ?d ''state'' v) = fromState jp (spreadWith data ''state'' v)"
    by (rule fromState_cong) (simp add: getProp_spreadWith)
  have ft: "fromTop jp ?d = fromTop jp data"
    using assms by (cases w) (simp_all add: fromTop_via_prop getProp_spreadWith isStr_def)
  show ?thesis
    by (simp add: validate_via_props [OF o] validate_via_props [OF isObject_spreadWith] s fs fs' ft
          split: option.splits json.splits)
qed

lemma state_unparsable:
  assumes "getProp data ''state'' = Some (JStr s)" "jp s = None"
  shows "validateOneTabExport jp data = Inl ERR_STATE_JSON"
  using assms by (simp add: validate_via_props [OF getProp_Some_isObject [OF assms(1)]])

lemma inner_unparsable:
  assumes "getProp data ''state'' = Some st" "isObject st"
    "getProp st ''tabGroups'' = Some (JStr t)" "jp t = None"
  shows "validateOneTabExport jp data = Inl ERR_TABGROUPS_JSON"
  using assms
  by (cases st) (simp_all add: validate_via_props [OF getProp_Some_isObject [OF assms(1)]]
       fromState_via_prop isObject_def)

lemma both_unparsable:
  assumes "getProp data ''state'' = Some (JStr s)" "jp s = Some st" "isObject st"
    "getProp st ''tabGroups'' = Some (JStr t)" "jp t = None"
  shows "validateOneTabExport jp data = Inl ERR_TABGROUPS_JSON"
  using assms
  by (simp add: validate_via_props [OF getProp_Some_isObject [OF assms(1)]]
       fromState_via_prop getProp_spreadWith)

lemma top_unparsable:
  assumes "getProp data ''state'' = None" "getProp data ''tabGroups'' = Some (JStr t)" "jp t = None"
  shows "validateOneTabExport jp data = Inl ERR_TABGROUPS_JSON"
  using assms
  by (simp add: validate_via_props [OF getProp_Some_isObject [OF assms(2)]]
       fromState_via_prop fromTop_via_prop)

lemma fromTop_Inr_valid: "fromTop jp obj = Inr gs \<Longrightarrow> list_all isValidGroup gs"
  by (auto simp: fromTop_via_prop split: option.splits json.splits if_splits)

lemma fromState_Inr_valid: "fromState jp obj = Some (Inr gs) \<Longrightarrow> list_all isValidGroup gs"
  by (auto simp: fromState_via_prop split: option.splits json.splits if_splits)

lemma validate_Inr_valid:
  assumes "validateOneTabExport jp data = Inr gs"
  shows "list_all isValidGroup gs"
proof (cases "isObject data")
  case False
  with assms show ?thesis by (simp add: validateOneTabExport_def)
next
  case True
  with assms obtain obj where
    "(fromState jp obj = Some (Inr gs)) \<or> (fromState jp obj = None \<and> fromTop jp obj = Inr gs)"
    by (auto simp: validateOneTabExport_def split: sum.splits option.splits)
  then show ?thesis
    using fromTop_Inr_valid fromState_Inr_valid by blast
qed

lemma state_array:
  assumes "getProp data ''state'' = Some st" "isObject st" "getProp st ''tabGroups'' = Some (JArr cs)"
  shows "validateOneTabExport jp data = (if list_all isValidGroup cs then Inr cs else Inl ERR_ENTRIES)"
proof -
  have ns: "\<not> isStr (getProp data ''state'')"
    using assms(1,2) by (cases st) (simp_all add: isObject_def isStr_def)
  show ?thesis
    using assms
    by (simp add: validate_nonstring_state [OF getProp_Some_isObject [OF assms(1)] ns]
          fromState_via_prop)
qed

lemma top_array:
  assumes "getProp data ''state'' = None" "getProp data ''tabGroups'' = Some (JArr cs)"
  shows "validateOneTabExport jp data = (if list_all isValidGroup cs then Inr cs else Inl ERR_ENTRIES)"
  using assms
  by (simp add: validate_via_props [OF getProp_Some_isObject [OF assms(2)]]
        fromState_via_prop fromTop_via_prop)

lemma isStr_iff: "isStr v \<longleftrightarrow> (\<exists>s. v = Some (JStr s))"
  by (auto simp: isStr_def split: option.splits json.splits)

lemma isNum_iff: "isNum v \<longleftrightarrow> (\<exists>n. v = Some (JNum n))"
  by (auto simp: isNum_def split: option.splits json.splits)

lemma isValidTab_iff:
  "isValidTab t \<longleftrightarrow> isObject t \<and> (\<exists>a. getProp t ''id'' = Some (JStr a))
      \<and> (\<exists>b. getProp t ''url'' = Some (JStr b)) \<and> (\<exists>c. getProp t ''title'' = Some (JStr c))"
  by (simp add: isValidTab_def isStr_iff)

lemma isValidGroup_iff:
  "isValidGroup g \<longleftrightarrow>
     isObject g \<and> (\<exists>i. getProp g ''id'' = Some (JStr i))
     \<and> (\<exists>n. getProp g ''createDate'' = Some (JNum n))
     \<and> (\<exists>ts. getProp g ''tabsMeta'' = Some (JArr ts) \<and> (\<forall>t\<in>set ts. isValidTab t))"
  by (auto simp: isValidGroup_def isStr_iff isNum_iff list_all_iff split: option.splits json.splits)

text \<open>
  C4. A \<open>state\<close> field, a \<open>tabGroups\<close> field inside the state, both of them, or a
  top-level \<open>tabGroups\<close> field supplied as a string that \<open>JSON.parse\<close> decodes to a
  structure gives the result the decoded payload gives. A \<open>state\<close> string that does not
  parse fails with the message about \<open>state\<close>; a \<open>tabGroups\<close> string that does not
  parse, inside the state or at top level of a payload without state, fails with the
  message about \<open>tabGroups\<close>.
\<close>

theorem validateOneTabExport_double_encoding:
  "(getProp data ''state'' = Some (JStr s) \<and> jp s = Some v \<and> \<not> isStr (Some v) \<longrightarrow>
      validateOneTabExport jp data = validateOneTabExport jp (spreadWith data ''state'' v))
   \<and> (getProp data ''state'' = Some st \<and> isObject st
        \<and> getProp st ''tabGroups'' = Some (JStr t) \<and> jp t = Some w \<and> \<not> isStr (Some w) \<longrightarrow>
      validateOneTabExport jp data =
        validateOneTabExport jp (spreadWith data ''state'' (spreadWith st ''tabGroups'' w)))
   \<and> (getProp data ''state'' = Some (JStr s) \<and> jp s = Some st \<and> isObject st
        \<and> getProp st ''tabGroups'' = Some (JStr t) \<and> jp t = Some w \<and> \<not> isStr (Some w) \<longrightarrow>
      validateOneTabExport jp data =
        validateOneTabExport jp (spreadWith data ''state'' (spreadWith st ''tabGroups'' w)))
   \<and> (getProp data ''tabGroups'' = Some (JStr t) \<and> jp t = Some w \<and> \<not> isStr (Some w) \<longrightarrow>
      validateOneTabExport jp data = validateOneTabExport jp (spreadWith data ''tabGroups'' w))
   \<and> (getProp data ''state'' = Some (JStr s) \<and> jp s = None \<longrightarrow>
      validateOneTabExport jp data = Inl ERR_STATE_JSON)
   \<and> (getProp data ''state'' = Some st \<and> isObject st
        \<and> getProp st ''tabGroups'' = Some (JStr t) \<and> jp t = None \<longrightarrow>
      validateOneTabExport jp data = Inl ERR_TABGROUPS_JSON)
   \<and> (getProp data ''state'' = Some (JStr s) \<and> jp s = Some st \<and> isObject st
        \<and> getProp st ''tabGroups'' = Some (JStr t) \<and> jp t = None \<longrightarrow>
      validateOneTabExport jp data = Inl ERR_TABGROUPS_JSON)
   \<and> (getProp data ''state'' = None \<and> getProp data ''tabGroups'' = Some (JStr t)
        \<and> jp t = None \<longrightarrow>
      validateOneTabExport jp data = Inl ERR_TABGROUPS_JSON)"
  using reparse_state_ok [of data s jp v] reparse_inner_ok [of data st t jp w]
    reparse_both_ok [of data s jp st t w] reparse_top_ok [of data t jp w]
    state_unparsable [of data s jp] inner_unparsable [of data st t jp]
    both_unparsable [of data s jp st t] top_unparsable [of data t jp]
  by blast

theorem validateOneTabExport_double_encoding_witness:
  "validateOneTabExport fx_jsonParse fx_encBoth = Inr [fx_rawGroup]
   \<and> validateOneTabExport fx_jsonParse fx_encInner = Inr [fx_rawGroup]
   \<and> validateOneTabExport fx_jsonParse fx_encTop = Inr [fx_rawGroup]
   \<and> validateOneTabExport fx_jsonParse fx_badState = Inl ERR_STATE_JSON
   \<and> validateOneTabExport fx_jsonParse fx_badInner = Inl ERR_TABGROUPS_JSON
   \<and> validateOneTabExport fx_jsonParse fx_badBoth = Inl ERR_TABGROUPS_JSON
   \<and> validateOneTabExport fx_jsonParse fx_badTop = Inl ERR_TABGROUPS_JSON"
proof -
  let ?st = "JObj [(''tabGroups'', JStr fx_groupsText)]"
  let ?w = "JArr [fx_rawGroup]"
  have p1: "fx_jsonParse fx_stateText = Some ?st" by (simp add: fx_jsonParse_def)
  have p2: "fx_jsonParse fx_groupsText = Some ?w" by code_simp
  have p3: "fx_jsonParse ''{oops'' = None" by code_simp
  have p4: "fx_jsonParse fx_stateTextBad = Some (JObj [(''tabGroups'', JStr ''{oops'')])"
    by code_simp
  have plainS: "validateOneTabExport fx_jsonParse
          (spreadWith fx_encBoth ''state'' (spreadWith ?st ''tabGroups'' ?w)) = Inr [fx_rawGroup]"
    by code_simp
  have plainI: "validateOneTabExport fx_jsonParse
          (spreadWith fx_encInner ''state'' (spreadWith ?st ''tabGroups'' ?w)) = Inr [fx_rawGroup]"
    by code_simp
  have plainT: "validateOneTabExport fx_jsonParse (spreadWith fx_encTop ''tabGroups'' ?w)
          = Inr [fx_rawGroup]"
    by code_simp
  have a: "validateOneTabExport fx_jsonParse fx_encBoth = Inr [fx_rawGroup]"
    using validateOneTabExport_double_encoding
            [where data = fx_encBoth and s = fx_stateText and jp = fx_jsonParse and st = ?st
               and t = fx_groupsText and w = ?w]
          p1 p2 plainS
    by (simp add: fx_encBoth_def getProp_def isObject_def isStr_def)
  have b: "validateOneTabExport fx_jsonParse fx_encInner = Inr [fx_rawGroup]"
    using validateOneTabExport_double_encoding
            [where data = fx_encInner and jp = fx_jsonParse and st = ?st
               and t = fx_groupsText and w = ?w]
          p2 plainI
    by (simp add: fx_encInner_def getProp_def isObject_def isStr_def)
  have c: "validateOneTabExport fx_jsonParse fx_encTop = Inr [fx_rawGroup]"
    using validateOneTabExport_double_encoding
            [where data = fx_encTop and jp = fx_jsonParse and t = fx_groupsText and w = ?w]
          p2 plainT
    by (simp add: fx_encTop_def getProp_def isStr_def)
  have d: "validateOneTabExport fx_jsonParse fx_badState = Inl ERR_STATE_JSON"
    using validateOneTabExport_double_encoding
            [where data = fx_badState and jp = fx_jsonParse and s = "''{oops''"] p3
    by (simp add: fx_badState_def getProp_def)
  have e: "validateOneTabExport fx_jsonParse fx_badInner = Inl ERR_TABGROUPS_JSON"
    using validateOneTabExport_double_encoding
            [where data = fx_badInner and jp = fx_jsonParse and t = "''{oops''"
               and st = "JObj [(''tabGroups'', JStr ''{oops'')]"] p3
    by (simp add: fx_badInner_def getProp_def isObject_def)
  have f: "validateOneTabExport fx_jsonParse fx_badBoth = Inl ERR_TABGROUPS_JSON"
    using validateOneTabExport_double_encoding
            [where data = fx_badBoth and jp = fx_jsonParse and s = fx_stateTextBad
               and t = "''{oops''" and st = "JObj [(''tabGroups'', JStr ''{oops'')]"] p3 p4
    by (simp add: fx_badBoth_def getProp_def isObject_def)
  have g: "validateOneTabExport fx_jsonParse fx_badTop = Inl ERR_TABGROUPS_JSON"
    using validateOneTabExport_double_encoding
            [where data = fx_badTop and jp = fx_jsonParse and t = "''{oops''"] p3
    by (simp add: fx_badTop_def getProp_def)
  from a b c d e f g show ?thesis by blast
qed

text \<open>
  C5. Validation is all or nothing. Every batch the validator returns consists of valid
  groups only. When the array of candidate groups is found, in the state or at top
  level, the whole array is returned if every record is valid and the call fails, with
  no group returned, as soon as one record is not. A record is valid exactly when it is
  an object with a string \<open>id\<close>, a numeric \<open>createDate\<close> and an array \<open>tabsMeta\<close> whose
  elements are objects with string \<open>id\<close>, \<open>url\<close> and \<open>title\<close>.
\<close>

theorem validateOneTabExport_all_or_nothing:
  "(validateOneTabExport jp data = Inr gs \<longrightarrow> list_all isValidGroup gs)
   \<and> (getProp data ''state'' = Some st \<and> isObject st
        \<and> getProp st ''tabGroups'' = Some (JArr cs) \<longrightarrow>
      validateOneTabExport jp data
        = (if list_all isValidGroup cs then Inr cs else Inl ERR_ENTRIES))
   \<and> (getProp data ''state'' = None \<and> getProp data ''tabGroups'' = Some (JArr cs) \<longrightarrow>
      validateOneTabExport jp data
        = (if list_all isValidGroup cs then Inr cs else Inl ERR_ENTRIES))
   \<and> (isValidGroup g \<longleftrightarrow>
        isObject g \<and> (\<exists>i. getProp g ''id'' = Some (JStr i))
        \<and> (\<exists>n. getProp g ''createDate'' = Some (JNum n))
        \<and> (\<exists>ts. getProp g ''tabsMeta'' = Some (JArr ts)
              \<and> (\<forall>tab\<in>set ts. isObject tab \<and> (\<exists>a. getProp tab ''id'' = Some (JStr a))
                    \<and> (\<exists>b. getProp tab ''url'' = Some (JStr b))
                    \<and> (\<exists>c. getProp tab ''title'' = Some (JStr c)))))"
proof -
  have v: "isValidGroup g \<longleftrightarrow>
        isObject g \<and> (\<exists>i. getProp g ''id'' = Some (JStr i))
        \<and> (\<exists>n. getProp g ''createDate'' = Some (JNum n))
        \<and> (\<exists>ts. getProp g ''tabsMeta'' = Some (JArr ts)
              \<and> (\<forall>tab\<in>set ts. isObject tab \<and> (\<exists>a. getProp tab ''id'' = Some (JStr a))
                    \<and> (\<exists>b. getProp tab ''url'' = Some (JStr b))
                    \<and> (\<exists>c. getProp tab ''title'' = Some (JStr c))))"
    by (simp add: isValidGroup_iff isValidTab_iff)
  show ?thesis
    using validate_Inr_valid [of jp data gs] state_array [of data st cs jp]
      top_array [of data cs jp] v
    by blast
qed

theorem validateOneTabExport_all_or_nothing_witness:
  "isValidGroup fx_rawGroup \<and> \<not> isValidGroup fx_badGroup
   \<and> validateOneTabExport fx_noJson fx_mixedTop = Inl ERR_ENTRIES
   \<and> validateOneTabExport fx_noJson fx_mixedState = Inl ERR_ENTRIES
   \<and> validateOneTabExport fx_noJson fx_raw = Inr [fx_rawGroup]
   \<and> list_all isValidGroup [fx_rawGroup]"
proof -
  have g1: "isValidGroup fx_rawGroup" by code_simp
  have g2: "\<not> isValidGroup fx_badGroup" by code_simp
  have r: "validateOneTabExport fx_noJson fx_raw = Inr [fx_rawGroup]" by code_simp
  have a: "validateOneTabExport fx_noJson fx_mixedTop = Inl ERR_ENTRIES"
    using validateOneTabExport_all_or_nothing
            [where data = fx_mixedTop and jp = fx_noJson and cs = "[fx_rawGroup, fx_badGroup]"]
          g1 g2
    by (simp add: fx_mixedTop_def getProp_def)
  have b: "validateOneTabExport fx_noJson fx_mixedState = Inl ERR_ENTRIES"
    using validateOneTabExport_all_or_nothing
            [where data = fx_mixedState and jp = fx_noJson and cs = "[fx_rawGroup, fx_badGroup]"
               and st = "JObj [(''tabGroups'', JArr [fx_rawGroup, fx_badGroup])]"]
          g1 g2
    by (simp add: fx_mixedState_def getProp_def isObject_def)
  have c: "list_all isValidGroup [fx_rawGroup]"
    using validateOneTabExport_all_or_nothing
            [where data = fx_raw and jp = fx_noJson and gs = "[fx_rawGroup]"] r
    by blast
  from g1 g2 a b r c show ?thesis by blast
qed

section \<open>Flexible dates and the date filter\<close>


lemma isDigit_not_T: "isDigit c \<Longrightarrow> c \<noteq> CHR ''T''"
  by (auto simp: isDigit_def)

lemma digits_no_T: "list_all isDigit s \<Longrightarrow> CHR ''T'' \<notin> set s"
  by (auto simp: list_all_iff dest: isDigit_not_T)

lemma isY_no_T: "isY s \<Longrightarrow> CHR ''T'' \<notin> set s"
  by (simp add: isY_def digits_no_T)

lemma isYM_no_T:
  assumes "isYM s" shows "CHR ''T'' \<notin> set s"
proof -
  from assms have l: "length s = 7" and a: "list_all isDigit (take 4 s)" and d: "s ! 4 = CHR ''-''"
    and b: "list_all isDigit (drop 5 s)" by (simp_all add: isYM_def)
  have "4 < length s" using l by simp
  then have "s = take 4 s @ s ! 4 # drop (Suc 4) s" by (rule id_take_nth_drop)
  then have "set s = set (take 4 s @ s ! 4 # drop (Suc 4) s)" by simp
  then have "set s = set (take 4 s) \<union> {s ! 4} \<union> set (drop 5 s)"
    by (simp only: set_append list.simps(15)) auto
  with a b d show ?thesis by (auto dest: digits_no_T)
qed

lemma isYMD_no_T:
  assumes "isYMD s" shows "CHR ''T'' \<notin> set s"
proof -
  from assms have l: "length s = 10" and a: "list_all isDigit (take 4 s)" and d: "s ! 4 = CHR ''-''"
    and b: "list_all isDigit (take 2 (drop 5 s))" and e: "s ! 7 = CHR ''-''"
    and c: "list_all isDigit (drop 8 s)" by (simp_all add: isYMD_def)
  have "4 < length s" using l by simp
  then have "s = take 4 s @ s ! 4 # drop (Suc 4) s" by (rule id_take_nth_drop)
  then have "set s = set (take 4 s @ s ! 4 # drop (Suc 4) s)" by simp
  then have 1: "set s = set (take 4 s) \<union> {s ! 4} \<union> set (drop 5 s)"
    by (simp only: set_append list.simps(15)) auto
  have "2 < length (drop 5 s)" using l by simp
  then have "drop 5 s = take 2 (drop 5 s) @ (drop 5 s) ! 2 # drop (Suc 2) (drop 5 s)"
    by (rule id_take_nth_drop)
  then have "set (drop 5 s)
      = set (take 2 (drop 5 s) @ (drop 5 s) ! 2 # drop (Suc 2) (drop 5 s))" by simp
  then have "set (drop 5 s) = set (take 2 (drop 5 s)) \<union> {(drop 5 s) ! 2} \<union> set (drop 8 s)"
    by (simp only: set_append list.simps(15) drop_drop) auto
  moreover have "(drop 5 s) ! 2 = s ! 7" using l by simp
  ultimately have 2: "set (drop 5 s) = set (take 2 (drop 5 s)) \<union> {s ! 7} \<union> set (drop 8 s)"
    by simp
  show ?thesis using 1 2 a b c d e by (auto dest: digits_no_T)
qed

lemma pfd_Y:
  "isY s \<Longrightarrow> parseFlexibleDate lp s e =
     Inr (s @ (if e then ''-12-31T23:59:59.999Z'' else ''-01-01T00:00:00.000Z''))"
  using isY_no_T [of s]
  by (auto simp: parseFlexibleDate_def isY_def isYM_def isYMD_def)

lemma pfd_YMD:
  "isYMD s \<Longrightarrow> parseFlexibleDate lp s e =
     Inr (s @ (if e then ''T23:59:59.999Z'' else ''T00:00:00.000Z''))"
  using isYMD_no_T [of s]
  by (auto simp: parseFlexibleDate_def)

lemma pfd_YM_start:
  "isYM s \<Longrightarrow> parseFlexibleDate lp s False = Inr (s @ ''-01T00:00:00.000Z'')"
  using isYM_no_T [of s]
  by (auto simp: parseFlexibleDate_def isYM_def isYMD_def)

lemma pfd_YM_end:
  "isYM s \<Longrightarrow> readNat (take 4 s) = Some y \<Longrightarrow> readNat (drop 5 s) = Some m \<Longrightarrow>
   parseFlexibleDate lp s True =
     Inr (s @ ''-'' @ padStart2 (showInt (lastDayOf (int y) (int m))) @ ''T23:59:59.999Z'')"
  using isYM_no_T [of s]
  by (auto simp: parseFlexibleDate_def isYM_def isYMD_def Let_def)

lemma fullYear_leap:
  "0 < y \<Longrightarrow> isLeapYear (fullYearArg y) = isLeapYear y"
  unfolding isLeapYear_def fullYearArg_def by presburger

lemma lastDayOf_month:
  assumes "1 \<le> m" "m \<le> 12" "0 \<le> y" "y \<noteq> 0 \<or> m \<noteq> 2"
  shows "lastDayOf y m = daysInMonth y m"
proof -
  have k: "(m - 1) div 12 = 0" "(m - 1) mod 12 + 1 = m" using assms(1,2) by auto
  have "daysInMonth (fullYearArg y) m = daysInMonth y m"
  proof (cases "y = 0")
    case True
    with assms(4) show ?thesis by (simp add: daysInMonth_def)
  next
    case False
    with assms(3) have "0 < y" by simp
    then show ?thesis by (simp add: daysInMonth_def fullYear_leap)
  qed
  then show ?thesis by (simp add: lastDayOf_def k)
qed

lemma daysInMonth_range: "28 \<le> daysInMonth y m \<and> daysInMonth y m \<le> 31"
  by (simp add: daysInMonth_def)

lemma pad_show_two:
  assumes "10 \<le> d" "d \<le> 99"
  shows "padStart2 (showInt d) = digits 2 (nat d)"
proof -
  have 1: "nat d div 10 < 10" using assms by auto
  have 2: "\<not> nat d < 10" using assms by auto
  have "showNat (nat d) = [digitChar (nat d div 10), digitChar (nat d)]"
    using 1 2 by (subst showNat.simps, simp, subst showNat.simps, simp)
  moreover have "digits 2 (nat d) = [digitChar (nat d div 10), digitChar (nat d)]"
    by (simp add: numeral_2_eq_2)
  ultimately show ?thesis using assms by (simp add: padStart2_def showInt_def)
qed

lemma Date_parse_iso:
  "parseIsoUtc s = Some t \<Longrightarrow> \<bar>t\<bar> \<le> 8640000000000000 \<Longrightarrow> Date_parse lp s = Some t"
  by (simp add: Date_parse_def)

lemma iso_group: "parseIsoUtc ''2025-06-15T12:00:00.000Z'' = Some 1749988800000" by code_simp
lemma iso_jun_start: "parseIsoUtc ''2025-06-01T00:00:00.000Z'' = Some 1748736000000" by code_simp
lemma iso_jul_start: "parseIsoUtc ''2025-07-01T00:00:00.000Z'' = Some 1751328000000" by code_simp
lemma iso_jun_end: "parseIsoUtc ''2025-06-30T23:59:59.999Z'' = Some 1751327999999" by code_simp
lemma iso_may_end: "parseIsoUtc ''2025-05-31T23:59:59.999Z'' = Some 1748735999999" by code_simp
lemma iso_feb0_29: "parseIsoUtc ''0000-02-29T12:00:00.000Z'' = Some (- 62162078400000)" by code_simp
lemma iso_feb0_28: "parseIsoUtc ''0000-02-28T23:59:59.999Z'' = Some (- 62162121600001)" by code_simp

lemma ym_2025_06: "isYM ''2025-06'' \<and> readNat (take 4 ''2025-06'') = Some 2025
   \<and> readNat (drop 5 ''2025-06'') = Some 6" by code_simp
lemma ym_2025_05: "isYM ''2025-05'' \<and> readNat (take 4 ''2025-05'') = Some 2025
   \<and> readNat (drop 5 ''2025-05'') = Some 5" by code_simp
lemma ym_2025_07: "isYM ''2025-07''" by code_simp
lemma ym_0000_02: "isYM ''0000-02'' \<and> readNat (take 4 ''0000-02'') = Some 0
   \<and> readNat (drop 5 ''0000-02'') = Some 2" by code_simp

lemma pad30: "padStart2 (showInt (lastDayOf 2025 6)) = ''30''" by code_simp
lemma pad31: "padStart2 (showInt (lastDayOf 2025 5)) = ''31''" by code_simp
lemma pad28: "padStart2 (showInt (lastDayOf 0 2)) = ''28''" by code_simp

lemma from_2025_06: "parseFlexibleDate lp ''2025-06'' False = Inr ''2025-06-01T00:00:00.000Z''"
  using pfd_YM_start [of "''2025-06''" lp] ym_2025_06 by simp

lemma from_2025_07: "parseFlexibleDate lp ''2025-07'' False = Inr ''2025-07-01T00:00:00.000Z''"
  using pfd_YM_start [of "''2025-07''" lp] ym_2025_07 by simp

lemma to_2025_06: "parseFlexibleDate lp ''2025-06'' True = Inr ''2025-06-30T23:59:59.999Z''"
  using pfd_YM_end [of "''2025-06''" 2025 6 lp] ym_2025_06 pad30 by simp

lemma to_2025_05: "parseFlexibleDate lp ''2025-05'' True = Inr ''2025-05-31T23:59:59.999Z''"
  using pfd_YM_end [of "''2025-05''" 2025 5 lp] ym_2025_05 pad31 by simp

lemma to_0000_02: "parseFlexibleDate lp ''0000-02'' True = Inr ''0000-02-28T23:59:59.999Z''"
  using pfd_YM_end [of "''0000-02''" 0 2 lp] ym_0000_02 pad28 by simp

lemma dp_group: "Date_parse lp ''2025-06-15T12:00:00.000Z'' = Some 1749988800000"
  by (rule Date_parse_iso [OF iso_group]) simp
lemma dp_jun_start: "Date_parse lp ''2025-06-01T00:00:00.000Z'' = Some 1748736000000"
  by (rule Date_parse_iso [OF iso_jun_start]) simp
lemma dp_jul_start: "Date_parse lp ''2025-07-01T00:00:00.000Z'' = Some 1751328000000"
  by (rule Date_parse_iso [OF iso_jul_start]) simp
lemma dp_jun_end: "Date_parse lp ''2025-06-30T23:59:59.999Z'' = Some 1751327999999"
  by (rule Date_parse_iso [OF iso_jun_end]) simp
lemma dp_may_end: "Date_parse lp ''2025-05-31T23:59:59.999Z'' = Some 1748735999999"
  by (rule Date_parse_iso [OF iso_may_end]) simp
lemma dp_feb0_29: "Date_parse lp ''0000-02-29T12:00:00.000Z'' = Some (- 62162078400000)"
  by (rule Date_parse_iso [OF iso_feb0_29]) simp
lemma dp_feb0_28: "Date_parse lp ''0000-02-28T23:59:59.999Z'' = Some (- 62162121600001)"
  by (rule Date_parse_iso [OF iso_feb0_28]) simp

lemma range_from:
  "f \<noteq> [] \<Longrightarrow> Date_parse lp d = Some x \<Longrightarrow> Date_parse lp f = Some y \<Longrightarrow>
   isDateInRange lp d (Some f) None = (y \<le> x)"
  by (auto simp: isDateInRange_def numLess_def Let_def)

lemma range_to:
  "t \<noteq> [] \<Longrightarrow> Date_parse lp d = Some x \<Longrightarrow> Date_parse lp t = Some y \<Longrightarrow>
   isDateInRange lp d None (Some t) = (x \<le> y)"
  by (auto simp: isDateInRange_def numLess_def Let_def)

lemma boundary_cases:
  "isDateInRange lp ''2025-06-15T12:00:00.000Z'' (Some ''2025-06-01T00:00:00.000Z'') None
   \<and> \<not> isDateInRange lp ''2025-06-15T12:00:00.000Z'' (Some ''2025-07-01T00:00:00.000Z'') None
   \<and> isDateInRange lp ''2025-06-15T12:00:00.000Z'' None (Some ''2025-06-30T23:59:59.999Z'')
   \<and> \<not> isDateInRange lp ''2025-06-15T12:00:00.000Z'' None (Some ''2025-05-31T23:59:59.999Z'')
   \<and> \<not> isDateInRange lp ''0000-02-29T12:00:00.000Z'' None (Some ''0000-02-28T23:59:59.999Z'')"
  by (simp add: range_from [OF _ dp_group dp_jun_start] range_from [OF _ dp_group dp_jul_start]
        range_to [OF _ dp_group dp_jun_end] range_to [OF _ dp_group dp_may_end]
        range_to [OF _ dp_feb0_29 dp_feb0_28])

lemma exportFilter_from:
  "parseFlexibleDate lp f False = Inr b \<Longrightarrow> f \<noteq> [] \<Longrightarrow>
   exportFilter lp M (Some f) None
     = Inr (filter (\<lambda>g. isDateInRange lp (createdAt g) (Some b) None) (groups M))"
  by (simp add: exportFilter_def parseBound_def given_def)

lemma exportFilter_to:
  "parseFlexibleDate lp t True = Inr b \<Longrightarrow> t \<noteq> [] \<Longrightarrow>
   exportFilter lp M None (Some t)
     = Inr (filter (\<lambda>g. isDateInRange lp (createdAt g) None (Some b)) (groups M))"
  by (simp add: exportFilter_def parseBound_def given_def)

lemma filter_cases:
  "exportFilter lp fx_june (Some ''2025-06'') None = Inr [fx_b]
   \<and> exportFilter lp fx_june (Some ''2025-07'') None = Inr []
   \<and> exportFilter lp fx_june None (Some ''2025-06'') = Inr [fx_b]
   \<and> exportFilter lp fx_june None (Some ''2025-05'') = Inr []
   \<and> exportFilter lp fx_leap None (Some ''0000-02'') = Inr []"
  using boundary_cases [of lp]
  by (simp add: exportFilter_from [OF from_2025_06] exportFilter_from [OF from_2025_07]
        exportFilter_to [OF to_2025_06] exportFilter_to [OF to_2025_05]
        exportFilter_to [OF to_0000_02] fx_june_def fx_leap_def fx_b_def fx_leapGroup_def)

text \<open>
  C6. A year, a year and month, or a full day expands to the first instant of the period
  as a lower bound and to 23:59:59.999 of its last day as an upper bound; for a month
  (01..12) the last day is the length of that month, in every year but for February of
  the year 0000, where the year is read as 1900 and the bound is the 28th although the
  month has 29 days. The group of 2025-06-15T12:00:00.000Z passes the filter for
  from = 2025-06 and to = 2025-06 and is dropped for from = 2025-07 and to = 2025-05; a
  group of 29 February 0000 is dropped for to = 0000-02.
\<close>

theorem parseFlexibleDate_expansion:
  "(isY s \<longrightarrow> parseFlexibleDate lp s False = Inr (s @ ''-01-01T00:00:00.000Z'')
             \<and> parseFlexibleDate lp s True = Inr (s @ ''-12-31T23:59:59.999Z''))
   \<and> (isYMD s \<longrightarrow> parseFlexibleDate lp s False = Inr (s @ ''T00:00:00.000Z'')
             \<and> parseFlexibleDate lp s True = Inr (s @ ''T23:59:59.999Z''))
   \<and> (isYM s \<longrightarrow> parseFlexibleDate lp s False = Inr (s @ ''-01T00:00:00.000Z''))
   \<and> (isYM s \<and> readNat (take 4 s) = Some y \<and> readNat (drop 5 s) = Some m
         \<and> 1 \<le> m \<and> m \<le> 12 \<and> (y \<noteq> 0 \<or> m \<noteq> 2) \<longrightarrow>
       parseFlexibleDate lp s True
         = Inr (s @ ''-'' @ digits 2 (nat (daysInMonth (int y) (int m))) @ ''T23:59:59.999Z''))
   \<and> exportFilter lp fx_june (Some ''2025-06'') None = Inr [fx_b]
   \<and> exportFilter lp fx_june (Some ''2025-07'') None = Inr []
   \<and> exportFilter lp fx_june None (Some ''2025-06'') = Inr [fx_b]
   \<and> exportFilter lp fx_june None (Some ''2025-05'') = Inr []
   \<and> daysInMonth 0 2 = 29
   \<and> parseFlexibleDate lp ''0000-02'' True = Inr ''0000-02-28T23:59:59.999Z''
   \<and> exportFilter lp fx_leap None (Some ''0000-02'') = Inr []"
proof -
  have ym: "isYM s \<and> readNat (take 4 s) = Some y \<and> readNat (drop 5 s) = Some m
         \<and> 1 \<le> m \<and> m \<le> 12 \<and> (y \<noteq> 0 \<or> m \<noteq> 2) \<longrightarrow>
       parseFlexibleDate lp s True
         = Inr (s @ ''-'' @ digits 2 (nat (daysInMonth (int y) (int m))) @ ''T23:59:59.999Z'')"
  proof
    assume h: "isYM s \<and> readNat (take 4 s) = Some y \<and> readNat (drop 5 s) = Some m
         \<and> 1 \<le> m \<and> m \<le> 12 \<and> (y \<noteq> 0 \<or> m \<noteq> 2)"
    then have l: "lastDayOf (int y) (int m) = daysInMonth (int y) (int m)"
      by (intro lastDayOf_month) auto
    have "padStart2 (showInt (daysInMonth (int y) (int m)))
          = digits 2 (nat (daysInMonth (int y) (int m)))"
      using daysInMonth_range [of "int y" "int m"] by (intro pad_show_two) auto
    with h l show "parseFlexibleDate lp s True
         = Inr (s @ ''-'' @ digits 2 (nat (daysInMonth (int y) (int m))) @ ''T23:59:59.999Z'')"
      by (simp add: pfd_YM_end [of s y m lp])
  qed
  have d: "daysInMonth 0 2 = 29" by (simp add: daysInMonth_def isLeapYear_def)
  show ?thesis
    using pfd_Y [of s lp False] pfd_Y [of s lp True] pfd_YMD [of s lp False] pfd_YMD [of s lp True]
      pfd_YM_start [of s lp] ym d filter_cases [of lp] to_0000_02 [of lp]
    by simp
qed

theorem parseFlexibleDate_expansion_witness:
  "isY ''2025'' \<and> isYMD ''2025-06-15'' \<and> isYM ''2024-02''
   \<and> parseFlexibleDate fx_noLegacy ''2025'' False = Inr ''2025-01-01T00:00:00.000Z''
   \<and> parseFlexibleDate fx_noLegacy ''2025'' True = Inr ''2025-12-31T23:59:59.999Z''
   \<and> parseFlexibleDate fx_noLegacy ''2025-06-15'' False = Inr ''2025-06-15T00:00:00.000Z''
   \<and> parseFlexibleDate fx_noLegacy ''2025-06-15'' True = Inr ''2025-06-15T23:59:59.999Z''
   \<and> parseFlexibleDate fx_noLegacy ''2024-02'' False = Inr ''2024-02-01T00:00:00.000Z''
   \<and> parseFlexibleDate fx_noLegacy ''2024-02'' True = Inr ''2024-02-29T23:59:59.999Z''"
proof -
  have a: "isY ''2025''" by code_simp
  have b: "isYMD ''2025-06-15''" by code_simp
  have c: "isYM ''2024-02'' \<and> readNat (take 4 ''2024-02'') = Some 2024
           \<and> readNat (drop 5 ''2024-02'') = Some 2" by code_simp
  have d: "digits 2 (nat (daysInMonth (int 2024) (int 2))) = ''29''" by code_simp
  from a parseFlexibleDate_expansion [where s = "''2025''" and lp = fx_noLegacy]
  have 1: "parseFlexibleDate fx_noLegacy ''2025'' False = Inr ''2025-01-01T00:00:00.000Z''
        \<and> parseFlexibleDate fx_noLegacy ''2025'' True = Inr ''2025-12-31T23:59:59.999Z''"
    by simp
  from b parseFlexibleDate_expansion [where s = "''2025-06-15''" and lp = fx_noLegacy]
  have 2: "parseFlexibleDate fx_noLegacy ''2025-06-15'' False = Inr ''2025-06-15T00:00:00.000Z''
        \<and> parseFlexibleDate fx_noLegacy ''2025-06-15'' True = Inr ''2025-06-15T23:59:59.999Z''"
    by simp
  from c d parseFlexibleDate_expansion
         [where s = "''2024-02''" and lp = fx_noLegacy and y = 2024 and m = 2]
  have 3: "parseFlexibleDate fx_noLegacy ''2024-02'' False = Inr ''2024-02-01T00:00:00.000Z''
        \<and> parseFlexibleDate fx_noLegacy ''2024-02'' True = Inr ''2024-02-29T23:59:59.999Z''"
    by simp
  from a b c 1 2 3 show ?thesis by simp
qed

section \<open>Week keys\<close>

text \<open>
  C7. With the process in UTC, midnight and noon of Saturday 4 January 2025 are the same
  calendar day: day 3 of the year, counted from 0, in a year whose 1 January is a
  Wednesday (3). The formula of the specification puts that day in week 1. The program
  returns \<open>2025-W01\<close> for midnight and \<open>2025-W02\<close> for noon, files the group saved at
  noon under \<open>2025-W02\<close> and writes it to \<open>output/2025/2025-W02.md\<close>.
\<close>

theorem getYearWeek_splits_a_day:
  "civilFromDays (1735948800000 div msPerDay) = (2025, 1, 4)
   \<and> civilFromDays (1735992000000 div msPerDay) = (2025, 1, 4)
   \<and> daysFromCivil 2025 1 4 - daysFromCivil 2025 1 1 = 3
   \<and> weekDay (daysFromCivil 2025 1 1) = 3
   \<and> weekKeySpec 2025 3 3 = ''2025-W01''
   \<and> getYearWeek fx_noLegacy 0 ''2025-01-04T00:00:00.000Z'' = ''2025-W01''
   \<and> getYearWeek fx_noLegacy 0 ''2025-01-04T12:00:00.000Z'' = ''2025-W02''
   \<and> groupByPeriod fx_noLegacy 0 [fx_saturdayNoon] Week = [(''2025-W02'', [fx_saturdayNoon])]
   \<and> getOutputPath ''output'' ''2025-W02'' Week = ''output/2025/2025-W02.md''"
  by code_simp

theorem getYearWeek_splits_a_day_witness:
  "getYearWeek fx_noLegacy 0 ''2025-01-04T12:00:00.000Z'' \<noteq> weekKeySpec 2025 3 3
   \<and> getYearWeek fx_noLegacy 0 ''2025-01-04T12:00:00.000Z''
       \<noteq> getYearWeek fx_noLegacy 0 ''2025-01-04T00:00:00.000Z''"
  using getYearWeek_splits_a_day by simp

section \<open>Search with an invalid pattern\<close>

lemma matchesTab_title_invalid:
  assumes "titlePattern opts = Some p" "p \<noteq> []" "rx p = None"
  shows "fst (matchesTab rx tab opts) = fst (matchesTab rx tab (opts\<lparr>titlePattern := None\<rparr>))"
    and "snd (matchesTab rx tab opts)
           = InvalidTitleRegex p # snd (matchesTab rx tab (opts\<lparr>titlePattern := None\<rparr>))"
  using assms
  by (simp_all add: matchesTab_def given_def Let_def split: option.splits)

lemma matchesTab_url_invalid:
  assumes "urlPattern opts = Some p" "p \<noteq> []" "rx p = None"
  shows "fst (matchesTab rx tab opts) = fst (matchesTab rx tab (opts\<lparr>urlPattern := None\<rparr>))"
    and "snd (matchesTab rx tab opts)
           = snd (matchesTab rx tab (opts\<lparr>urlPattern := None\<rparr>)) @ [InvalidUrlRegex p]"
  using assms
  by (simp_all add: matchesTab_def given_def Let_def split: option.splits prod.splits)

lemma matchesTab_never_matching:
  assumes "rx p = None"
  shows "fst (matchesTab rx tab opts) = fst (matchesTab (rx(p := Some (\<lambda>s. False))) tab opts)"
  using assms
  by (simp add: matchesTab_def given_def Let_def split: option.splits prod.splits)

lemma searchTabs_fst_cong:
  assumes "\<And>tab. fst (matchesTab rx tab opts) = fst (matchesTab rx' tab opts')"
  shows "fst (searchTabs rx opts g ts) = fst (searchTabs rx' opts' g ts)"
proof (induction ts)
  case Nil
  show ?case by simp
next
  case (Cons tab rest)
  have m: "fst (matchesTab rx tab opts) = fst (matchesTab rx' tab opts')" by (rule assms)
  show ?case
    using Cons.IH m
    by (simp add: case_prod_unfold Let_def)
qed

lemma searchGroups_fst_cong:
  assumes "\<And>tab. fst (matchesTab rx tab opts) = fst (matchesTab rx' tab opts')"
  shows "fst (searchGroups lp rx opts fd td gs) = fst (searchGroups lp rx' opts' fd td gs)"
proof (induction gs)
  case Nil
  show ?case by simp
next
  case (Cons g rest)
  have t: "fst (searchTabs rx opts g (tabs g)) = fst (searchTabs rx' opts' g (tabs g))"
    using assms by (rule searchTabs_fst_cong)
  show ?case
    using Cons.IH t
    by (simp add: case_prod_unfold Let_def)
qed

lemma searchData_results_cong:
  assumes "\<And>tab. fst (matchesTab rx tab opts) = fst (matchesTab rx' tab opts')"
    and "fromOpt opts' = fromOpt opts" "toOpt opts' = toOpt opts"
  shows "map_sum id fst (searchData lp rx M opts) = map_sum id fst (searchData lp rx' M opts')"
  using searchGroups_fst_cong [of rx opts rx' opts', OF assms(1)] assms(2,3)
  by (simp add: searchData_def split: sum.splits)

lemma searchData_Inl:
  "searchData lp rx M opts = Inl e \<Longrightarrow>
     parseBound lp (fromOpt opts) False = Inl e \<or> parseBound lp (toOpt opts) True = Inl e"
  by (auto simp: searchData_def split: sum.splits)

lemma searchTabs_warns:
  assumes "\<And>tab. w \<in> set (snd (matchesTab rx tab opts))" "ts \<noteq> []"
  shows "w \<in> set (snd (searchTabs rx opts g ts))"
proof (cases ts)
  case Nil
  with assms(2) show ?thesis by simp
next
  case (Cons tab rest)
  then show ?thesis using assms(1) [of tab] by (simp add: case_prod_unfold Let_def)
qed

lemma searchGroups_warns:
  assumes "\<And>tab. w \<in> set (snd (matchesTab rx tab opts))"
    and "g \<in> set gs" "tabs g \<noteq> []" "isDateInRange lp (createdAt g) fd td"
  shows "w \<in> set (snd (searchGroups lp rx opts fd td gs))"
  using assms(2-4)
proof (induction gs)
  case Nil
  then show ?case by simp
next
  case (Cons h rest)
  show ?case
  proof (cases "g = h")
    case True
    have "w \<in> set (snd (searchTabs rx opts h (tabs h)))"
      using assms(1) Cons.prems(2) True by (intro searchTabs_warns) auto
    then show ?thesis
      using Cons.prems(3) True by (simp add: case_prod_unfold Let_def)
  next
    case False
    with Cons have "w \<in> set (snd (searchGroups lp rx opts fd td rest))" by simp
    then show ?thesis by (simp add: case_prod_unfold Let_def)
  qed
qed

lemma searchData_warns:
  assumes "\<And>tab. w \<in> set (snd (matchesTab rx tab opts))"
    and "parseBound lp (fromOpt opts) False = Inr fd" "parseBound lp (toOpt opts) True = Inr td"
    and "g \<in> set (groups M)" "tabs g \<noteq> []" "isDateInRange lp (createdAt g) fd td"
  shows "\<exists>rs ws. searchData lp rx M opts = Inr (rs, ws) \<and> w \<in> set ws"
proof -
  have "w \<in> set (snd (searchGroups lp rx opts fd td (groups M)))"
    using assms(1,4,5,6) by (rule searchGroups_warns)
  then show ?thesis
    using assms(2,3) by (cases "searchGroups lp rx opts fd td (groups M)") (simp add: searchData_def)
qed

text \<open>
  C8. When the title pattern (or the URL pattern) is given and the engine rejects it,
  every tab is matched exactly as if that pattern were not given, or as if it compiled
  to an expression that matches nothing; the title (URL) warning is printed for the tab;
  the search returns the results of the search without that pattern, and prints the
  warning as soon as a group in the date range has a tab. The search fails only when a
  date bound fails to parse.
\<close>

theorem search_invalid_pattern:
  "(titlePattern opts = Some p \<and> p \<noteq> [] \<and> rx p = None \<longrightarrow>
      fst (matchesTab rx tab opts) = fst (matchesTab rx tab (opts\<lparr>titlePattern := None\<rparr>))
      \<and> fst (matchesTab rx tab opts) = fst (matchesTab (rx(p := Some (\<lambda>s. False))) tab opts)
      \<and> snd (matchesTab rx tab opts)
          = InvalidTitleRegex p # snd (matchesTab rx tab (opts\<lparr>titlePattern := None\<rparr>))
      \<and> map_sum id fst (searchData lp rx M opts)
          = map_sum id fst (searchData lp rx M (opts\<lparr>titlePattern := None\<rparr>))
      \<and> (parseBound lp (fromOpt opts) False = Inr fd \<and> parseBound lp (toOpt opts) True = Inr td
           \<and> g \<in> set (groups M) \<and> tabs g \<noteq> [] \<and> isDateInRange lp (createdAt g) fd td \<longrightarrow>
          (\<exists>rs ws. searchData lp rx M opts = Inr (rs, ws) \<and> InvalidTitleRegex p \<in> set ws)))
   \<and> (urlPattern opts = Some p \<and> p \<noteq> [] \<and> rx p = None \<longrightarrow>
      fst (matchesTab rx tab opts) = fst (matchesTab rx tab (opts\<lparr>urlPattern := None\<rparr>))
      \<and> fst (matchesTab rx tab opts) = fst (matchesTab (rx(p := Some (\<lambda>s. False))) tab opts)
      \<and> snd (matchesTab rx tab opts)
          = snd (matchesTab rx tab (opts\<lparr>urlPattern := None\<rparr>)) @ [InvalidUrlRegex p]
      \<and> map_sum id fst (searchData lp rx M opts)
          = map_sum id fst (searchData lp rx M (opts\<lparr>urlPattern := None\<rparr>))
      \<and> (parseBound lp (fromOpt opts) False = Inr fd \<and> parseBound lp (toOpt opts) True = Inr td
           \<and> g \<in> set (groups M) \<and> tabs g \<noteq> [] \<and> isDateInRange lp (createdAt g) fd td \<longrightarrow>
          (\<exists>rs ws. searchData lp rx M opts = Inr (rs, ws) \<and> InvalidUrlRegex p \<in> set ws)))
   \<and> (searchData lp rx M opts = Inl e \<longrightarrow>
        parseBound lp (fromOpt opts) False = Inl e \<or> parseBound lp (toOpt opts) True = Inl e)"
proof -
  have title: "titlePattern opts = Some p \<and> p \<noteq> [] \<and> rx p = None \<longrightarrow>
      fst (matchesTab rx tab opts) = fst (matchesTab rx tab (opts\<lparr>titlePattern := None\<rparr>))
      \<and> fst (matchesTab rx tab opts) = fst (matchesTab (rx(p := Some (\<lambda>s. False))) tab opts)
      \<and> snd (matchesTab rx tab opts)
          = InvalidTitleRegex p # snd (matchesTab rx tab (opts\<lparr>titlePattern := None\<rparr>))
      \<and> map_sum id fst (searchData lp rx M opts)
          = map_sum id fst (searchData lp rx M (opts\<lparr>titlePattern := None\<rparr>))
      \<and> (parseBound lp (fromOpt opts) False = Inr fd \<and> parseBound lp (toOpt opts) True = Inr td
           \<and> g \<in> set (groups M) \<and> tabs g \<noteq> [] \<and> isDateInRange lp (createdAt g) fd td \<longrightarrow>
          (\<exists>rs ws. searchData lp rx M opts = Inr (rs, ws) \<and> InvalidTitleRegex p \<in> set ws))"
  proof
    assume h: "titlePattern opts = Some p \<and> p \<noteq> [] \<and> rx p = None"
    then have a: "titlePattern opts = Some p" and b: "p \<noteq> []" and c: "rx p = None" by auto
    have w: "\<And>t. InvalidTitleRegex p \<in> set (snd (matchesTab rx t opts))"
      by (simp add: matchesTab_title_invalid(2) [where opts = opts and p = p and rx = rx, OF a b c])
    have s: "map_sum id fst (searchData lp rx M opts)
          = map_sum id fst (searchData lp rx M (opts\<lparr>titlePattern := None\<rparr>))"
      by (rule searchData_results_cong) (simp_all add: matchesTab_title_invalid(1) [where opts = opts and p = p and rx = rx, OF a b c])
    show "fst (matchesTab rx tab opts) = fst (matchesTab rx tab (opts\<lparr>titlePattern := None\<rparr>))
      \<and> fst (matchesTab rx tab opts) = fst (matchesTab (rx(p := Some (\<lambda>s. False))) tab opts)
      \<and> snd (matchesTab rx tab opts)
          = InvalidTitleRegex p # snd (matchesTab rx tab (opts\<lparr>titlePattern := None\<rparr>))
      \<and> map_sum id fst (searchData lp rx M opts)
          = map_sum id fst (searchData lp rx M (opts\<lparr>titlePattern := None\<rparr>))
      \<and> (parseBound lp (fromOpt opts) False = Inr fd \<and> parseBound lp (toOpt opts) True = Inr td
           \<and> g \<in> set (groups M) \<and> tabs g \<noteq> [] \<and> isDateInRange lp (createdAt g) fd td \<longrightarrow>
          (\<exists>rs ws. searchData lp rx M opts = Inr (rs, ws) \<and> InvalidTitleRegex p \<in> set ws))"
      using matchesTab_title_invalid [where opts = opts and p = p and rx = rx and tab = tab, OF a b c] matchesTab_never_matching [where rx = rx and p = p and tab = tab and opts = opts, OF c]
        s searchData_warns [of "InvalidTitleRegex p" rx opts lp fd td g M, OF w]
      by blast
  qed
  have url: "urlPattern opts = Some p \<and> p \<noteq> [] \<and> rx p = None \<longrightarrow>
      fst (matchesTab rx tab opts) = fst (matchesTab rx tab (opts\<lparr>urlPattern := None\<rparr>))
      \<and> fst (matchesTab rx tab opts) = fst (matchesTab (rx(p := Some (\<lambda>s. False))) tab opts)
      \<and> snd (matchesTab rx tab opts)
          = snd (matchesTab rx tab (opts\<lparr>urlPattern := None\<rparr>)) @ [InvalidUrlRegex p]
      \<and> map_sum id fst (searchData lp rx M opts)
          = map_sum id fst (searchData lp rx M (opts\<lparr>urlPattern := None\<rparr>))
      \<and> (parseBound lp (fromOpt opts) False = Inr fd \<and> parseBound lp (toOpt opts) True = Inr td
           \<and> g \<in> set (groups M) \<and> tabs g \<noteq> [] \<and> isDateInRange lp (createdAt g) fd td \<longrightarrow>
          (\<exists>rs ws. searchData lp rx M opts = Inr (rs, ws) \<and> InvalidUrlRegex p \<in> set ws))"
  proof
    assume h: "urlPattern opts = Some p \<and> p \<noteq> [] \<and> rx p = None"
    then have a: "urlPattern opts = Some p" and b: "p \<noteq> []" and c: "rx p = None" by auto
    have w: "\<And>t. InvalidUrlRegex p \<in> set (snd (matchesTab rx t opts))"
      by (simp add: matchesTab_url_invalid(2) [where opts = opts and p = p and rx = rx, OF a b c])
    have s: "map_sum id fst (searchData lp rx M opts)
          = map_sum id fst (searchData lp rx M (opts\<lparr>urlPattern := None\<rparr>))"
      by (rule searchData_results_cong) (simp_all add: matchesTab_url_invalid(1) [where opts = opts and p = p and rx = rx, OF a b c])
    show "fst (matchesTab rx tab opts) = fst (matchesTab rx tab (opts\<lparr>urlPattern := None\<rparr>))
      \<and> fst (matchesTab rx tab opts) = fst (matchesTab (rx(p := Some (\<lambda>s. False))) tab opts)
      \<and> snd (matchesTab rx tab opts)
          = snd (matchesTab rx tab (opts\<lparr>urlPattern := None\<rparr>)) @ [InvalidUrlRegex p]
      \<and> map_sum id fst (searchData lp rx M opts)
          = map_sum id fst (searchData lp rx M (opts\<lparr>urlPattern := None\<rparr>))
      \<and> (parseBound lp (fromOpt opts) False = Inr fd \<and> parseBound lp (toOpt opts) True = Inr td
           \<and> g \<in> set (groups M) \<and> tabs g \<noteq> [] \<and> isDateInRange lp (createdAt g) fd td \<longrightarrow>
          (\<exists>rs ws. searchData lp rx M opts = Inr (rs, ws) \<and> InvalidUrlRegex p \<in> set ws))"
      using matchesTab_url_invalid [where opts = opts and p = p and rx = rx and tab = tab, OF a b c] matchesTab_never_matching [where rx = rx and p = p and tab = tab and opts = opts, OF c]
        s searchData_warns [of "InvalidUrlRegex p" rx opts lp fd td g M, OF w]
      by blast
  qed
  show ?thesis
    using title url searchData_Inl [of lp rx M opts e] by blast
qed

theorem search_invalid_pattern_witness:
  "fx_regExp ''['' = None
   \<and> searchData fx_noLegacy fx_regExp fx_june fx_options
       = Inr ([fx_result False True True], [InvalidTitleRegex ''['' ])
   \<and> map_sum id fst (searchData fx_noLegacy fx_regExp fx_june
        (fx_options\<lparr>titlePattern := None\<rparr>)) = Inr [fx_result False True True]
   \<and> searchData fx_noLegacy fx_regExp fx_june fx_optionsUrl
       = Inr ([fx_result True False False], [InvalidUrlRegex ''['' ])
   \<and> map_sum id fst (searchData fx_noLegacy fx_regExp fx_june
        (fx_optionsUrl\<lparr>urlPattern := None\<rparr>)) = Inr [fx_result True False False]"
proof -
  have r: "fx_regExp ''['' = None" by (simp add: fx_regExp_def)
  have a: "searchData fx_noLegacy fx_regExp fx_june fx_options
       = Inr ([fx_result False True True], [InvalidTitleRegex ''['' ])" by code_simp
  have b: "searchData fx_noLegacy fx_regExp fx_june fx_optionsUrl
       = Inr ([fx_result True False False], [InvalidUrlRegex ''['' ])" by code_simp
  have t: "titlePattern fx_options = Some ''[''" by (simp add: fx_options_def)
  have u: "urlPattern fx_optionsUrl = Some ''[''" by (simp add: fx_optionsUrl_def)
  from search_invalid_pattern [where opts = fx_options and p = "''[''" and rx = fx_regExp
         and lp = fx_noLegacy and M = fx_june] r t
  have c: "map_sum id fst (searchData fx_noLegacy fx_regExp fx_june fx_options)
        = map_sum id fst (searchData fx_noLegacy fx_regExp fx_june
            (fx_options\<lparr>titlePattern := None\<rparr>))"
    by simp
  from search_invalid_pattern [where opts = fx_optionsUrl and p = "''[''" and rx = fx_regExp
         and lp = fx_noLegacy and M = fx_june] r u
  have d: "map_sum id fst (searchData fx_noLegacy fx_regExp fx_june fx_optionsUrl)
        = map_sum id fst (searchData fx_noLegacy fx_regExp fx_june
            (fx_optionsUrl\<lparr>urlPattern := None\<rparr>))"
    by simp
  from a c have c': "map_sum id fst (searchData fx_noLegacy fx_regExp fx_june
        (fx_options\<lparr>titlePattern := None\<rparr>)) = Inr [fx_result False True True]"
    by simp
  from b d have d': "map_sum id fst (searchData fx_noLegacy fx_regExp fx_june
        (fx_optionsUrl\<lparr>urlPattern := None\<rparr>)) = Inr [fx_result True False False]"
    by simp
  from r a b c' d' show ?thesis by simp
qed

section \<open>Date bounds that do not parse\<close>

lemma pfd_T: "CHR ''T'' \<in> set b \<Longrightarrow> parseFlexibleDate lp b e = Inr b"
  by (simp add: parseFlexibleDate_def)

lemma range_from_nan:
  "Date_parse lp f = None \<Longrightarrow> isDateInRange lp d (Some f) t = isDateInRange lp d None t"
  by (simp add: isDateInRange_def numLess_def Let_def split: option.splits)

lemma range_to_nan:
  "Date_parse lp u = None \<Longrightarrow> isDateInRange lp d f (Some u) = isDateInRange lp d f None"
  by (simp add: isDateInRange_def numLess_def Let_def split: option.splits)

lemma range_none: "isDateInRange lp d None None"
  by (simp add: isDateInRange_def)

lemma matchesTab_fromOpt: "matchesTab rx tab (opts\<lparr>fromOpt := x\<rparr>) = matchesTab rx tab opts"
  by (simp add: matchesTab_def Let_def cong: if_cong option.case_cong)

lemma matchesTab_toOpt: "matchesTab rx tab (opts\<lparr>toOpt := x\<rparr>) = matchesTab rx tab opts"
  by (simp add: matchesTab_def Let_def cong: if_cong option.case_cong)

lemma searchTabs_cong:
  assumes "\<And>tab. matchesTab rx tab opts = matchesTab rx tab opts'"
  shows "searchTabs rx opts g ts = searchTabs rx opts' g ts"
  by (induction ts) (simp_all add: assms)

lemma searchGroups_cong:
  assumes "\<And>tab. matchesTab rx tab opts = matchesTab rx tab opts'"
    and "\<And>d. isDateInRange lp d fd td = isDateInRange lp d fd' td'"
  shows "searchGroups lp rx opts fd td gs = searchGroups lp rx opts' fd' td' gs"
proof (induction gs)
  case Nil
  show ?case by simp
next
  case (Cons g rest)
  show ?case
    using Cons.IH assms(2) [of "createdAt g"]
      searchTabs_cong [of rx opts opts' g "tabs g", OF assms(1)]
    by (simp add: case_prod_unfold Let_def)
qed

lemma searchData_from_nan:
  assumes "fromOpt opts = Some f" "CHR ''T'' \<in> set f" "Date_parse lp f = None"
  shows "searchData lp rx M opts = searchData lp rx M (opts\<lparr>fromOpt := None\<rparr>)"
proof -
  have ne: "f \<noteq> []" using assms(2) by auto
  have pb: "parseBound lp (fromOpt opts) False = Inr (Some f)"
    using assms(1,2) ne by (simp add: parseBound_def given_def pfd_T)
  have pn: "parseBound lp (fromOpt (opts\<lparr>fromOpt := None\<rparr>)) False = Inr None"
    by (simp add: parseBound_def given_def)
  have sg: "\<And>td. searchGroups lp rx opts (Some f) td (groups M)
            = searchGroups lp rx (opts\<lparr>fromOpt := None\<rparr>) None td (groups M)"
    by (rule searchGroups_cong) (simp_all add: matchesTab_fromOpt range_from_nan [OF assms(3)])
  show ?thesis
    unfolding searchData_def pb pn by (simp add: sg split: sum.splits)
qed

lemma searchData_to_nan:
  assumes "toOpt opts = Some u" "CHR ''T'' \<in> set u" "Date_parse lp u = None"
  shows "searchData lp rx M opts = searchData lp rx M (opts\<lparr>toOpt := None\<rparr>)"
proof -
  have ne: "u \<noteq> []" using assms(2) by auto
  have pb: "parseBound lp (toOpt opts) True = Inr (Some u)"
    using assms(1,2) ne by (simp add: parseBound_def given_def pfd_T)
  have pn: "parseBound lp (toOpt (opts\<lparr>toOpt := None\<rparr>)) True = Inr None"
    by (simp add: parseBound_def given_def)
  have sg: "\<And>fd. searchGroups lp rx opts fd (Some u) (groups M)
            = searchGroups lp rx (opts\<lparr>toOpt := None\<rparr>) fd None (groups M)"
    by (rule searchGroups_cong) (simp_all add: matchesTab_toOpt range_to_nan [OF assms(3)])
  show ?thesis
    unfolding searchData_def pb pn by (simp add: sg split: sum.splits)
qed

lemma exportFilter_from_nan:
  assumes "CHR ''T'' \<in> set f" "Date_parse lp f = None"
  shows "exportFilter lp M (Some f) t = exportFilter lp M None t
         \<and> exportFilter lp M (Some f) None = Inr (groups M)"
proof -
  have ne: "f \<noteq> []" using assms(1) by auto
  show ?thesis
    using ne assms(1)
    by (auto simp: exportFilter_def parseBound_def given_def pfd_T range_from_nan [OF assms(2)]
          range_none split: sum.splits)
qed

lemma exportFilter_to_nan:
  assumes "CHR ''T'' \<in> set u" "Date_parse lp u = None"
  shows "exportFilter lp M f (Some u) = exportFilter lp M f None
         \<and> exportFilter lp M None (Some u) = Inr (groups M)"
proof -
  have ne: "u \<noteq> []" using assms(1) by auto
  show ?thesis
    using ne assms(1)
    by (auto simp: exportFilter_def parseBound_def given_def pfd_T range_to_nan [OF assms(2)]
          range_none split: sum.splits)
qed

text \<open>
  C10, as stated: a bound that does not parse makes the filter accept every group date.
  It does not when the other bound is valid: with from = \<open>garbageT\<close>, which is passed
  through and parses to no instant, and to = 2025-05, the group of 2025-06-15 is still
  dropped.
\<close>

theorem malformed_bound_counterexample:
  "CHR ''T'' \<in> set ''garbageT''
   \<and> parseFlexibleDate fx_noLegacy ''garbageT'' False = Inr ''garbageT''
   \<and> Date_parse fx_noLegacy ''garbageT'' = None
   \<and> \<not> isDateInRange fx_noLegacy ''2025-06-15T12:00:00.000Z'' (Some ''garbageT'')
          (Some ''2025-05-31T23:59:59.999Z'')
   \<and> exportFilter fx_noLegacy fx_june (Some ''garbageT'') (Some ''2025-05'') = Inr []"
  by code_simp

text \<open>
  C10, amended. A bound that contains a \<open>T\<close> is passed through unchanged, and a bound that
  parses to no instant switches off its own comparison only: the filter answers as
  if that bound were absent, so it accepts every group date when the other bound is
  absent or does not parse either, and still applies the other bound when that one is
  valid. Search and export run as without the bound: no error, the same results and no
  warning beyond those of the search without it.
\<close>

theorem malformed_bound_is_ignored:
  "(CHR ''T'' \<in> set b \<longrightarrow> parseFlexibleDate lp b e = Inr b)
   \<and> (Date_parse lp f = None \<longrightarrow>
        isDateInRange lp d (Some f) t = isDateInRange lp d None t
        \<and> isDateInRange lp d (Some f) None)
   \<and> (Date_parse lp u = None \<longrightarrow>
        isDateInRange lp d t (Some u) = isDateInRange lp d t None
        \<and> isDateInRange lp d None (Some u))
   \<and> (Date_parse lp f = None \<and> Date_parse lp u = None \<longrightarrow>
        isDateInRange lp d (Some f) (Some u))
   \<and> (fromOpt opts = Some f \<and> CHR ''T'' \<in> set f \<and> Date_parse lp f = None \<longrightarrow>
        searchData lp rx M opts = searchData lp rx M (opts\<lparr>fromOpt := None\<rparr>))
   \<and> (toOpt opts = Some u \<and> CHR ''T'' \<in> set u \<and> Date_parse lp u = None \<longrightarrow>
        searchData lp rx M opts = searchData lp rx M (opts\<lparr>toOpt := None\<rparr>))
   \<and> (CHR ''T'' \<in> set f \<and> Date_parse lp f = None \<longrightarrow>
        exportFilter lp M (Some f) t = exportFilter lp M None t
        \<and> exportFilter lp M (Some f) None = Inr (groups M))
   \<and> (CHR ''T'' \<in> set u \<and> Date_parse lp u = None \<longrightarrow>
        exportFilter lp M t (Some u) = exportFilter lp M t None
        \<and> exportFilter lp M None (Some u) = Inr (groups M))"
proof -
  have both: "Date_parse lp f = None \<and> Date_parse lp u = None \<longrightarrow>
        isDateInRange lp d (Some f) (Some u)"
    by (simp add: range_from_nan range_to_nan range_none)
  have fr: "Date_parse lp f = None \<longrightarrow>
        isDateInRange lp d (Some f) t = isDateInRange lp d None t
        \<and> isDateInRange lp d (Some f) None"
    by (simp add: range_from_nan range_none)
  have to: "Date_parse lp u = None \<longrightarrow>
        isDateInRange lp d t (Some u) = isDateInRange lp d t None
        \<and> isDateInRange lp d None (Some u)"
    by (simp add: range_to_nan range_none)
  show ?thesis
    using pfd_T [of b lp e] fr to both searchData_from_nan [of opts f lp rx M]
      searchData_to_nan [of opts u lp rx M] exportFilter_from_nan [of f lp M t]
      exportFilter_to_nan [of u lp M t]
    by blast
qed

theorem malformed_bound_is_ignored_witness:
  "CHR ''T'' \<in> set ''garbageT'' \<and> Date_parse fx_noLegacy ''garbageT'' = None
   \<and> fromOpt fx_optionsGarbage = Some ''garbageT''
   \<and> searchData fx_noLegacy fx_regExp fx_june fx_optionsGarbage
       = Inr ([fx_result False True True], [])
   \<and> searchData fx_noLegacy fx_regExp fx_june (fx_optionsGarbage\<lparr>fromOpt := None\<rparr>)
       = Inr ([fx_result False True True], [])
   \<and> exportFilter fx_noLegacy fx_june (Some ''garbageT'') None = Inr [fx_b]
   \<and> isDateInRange fx_noLegacy ''2025-06-15T12:00:00.000Z'' (Some ''garbageT'') None"
proof -
  have a: "CHR ''T'' \<in> set ''garbageT''" by simp
  have b: "Date_parse fx_noLegacy ''garbageT'' = None" by code_simp
  have c: "fromOpt fx_optionsGarbage = Some ''garbageT''" by (simp add: fx_optionsGarbage_def)
  have s: "searchData fx_noLegacy fx_regExp fx_june (fx_optionsGarbage\<lparr>fromOpt := None\<rparr>)
       = Inr ([fx_result False True True], [])" by code_simp
  have g: "groups fx_june = [fx_b]" by (simp add: fx_june_def)
  note t = malformed_bound_is_ignored [where lp = fx_noLegacy and f = "''garbageT''"
      and opts = fx_optionsGarbage and rx = fx_regExp and M = fx_june
      and d = "''2025-06-15T12:00:00.000Z''"]
  from t a b c have 1: "searchData fx_noLegacy fx_regExp fx_june fx_optionsGarbage
      = searchData fx_noLegacy fx_regExp fx_june (fx_optionsGarbage\<lparr>fromOpt := None\<rparr>)"
    by blast
  from t a b have 2: "exportFilter fx_noLegacy fx_june (Some ''garbageT'') None
      = Inr (groups fx_june)"
    by blast
  from t b have 3: "isDateInRange fx_noLegacy ''2025-06-15T12:00:00.000Z''
      (Some ''garbageT'') None"
    by blast
  from a b c s g 1 2 3 show ?thesis by simp
qed

section \<open>Domains of normalized tabs\<close>

lemma hostChars_props: "CHR '':'' \<notin> set (hostChars u) \<and> CHR ''/'' \<notin> set (hostChars u)"
  unfolding hostChars_def by (auto dest: set_takeWhileD)

lemma hostChars_Nil_iff: "hostChars u = [] \<longleftrightarrow> u = [] \<or> hd u = CHR '':'' \<or> hd u = CHR ''/''"
  by (cases u) (auto simp: hostChars_def)

lemma take_Cons_hd: "take n u = c # cs \<Longrightarrow> \<exists>r. u = c # r"
  by (cases u; cases n) auto

lemma afterHttpPrefix_Some: "afterHttpPrefix u = Some rest \<Longrightarrow> hostChars u \<noteq> []"
proof -
  assume a: "afterHttpPrefix u = Some rest"
  then have "take 8 u = ''https://'' \<or> take 7 u = ''http://''"
    by (auto simp: afterHttpPrefix_def split: if_splits)
  then obtain r where "u = CHR ''h'' # r"
    using take_Cons_hd [of 8 u] take_Cons_hd [of 7 u] by blast
  then show ?thesis by (simp add: hostChars_def)
qed

lemma matchHost_Some:
  assumes "matchHost u = Some m"
  shows "m \<noteq> [] \<and> CHR '':'' \<notin> set m \<and> CHR ''/'' \<notin> set m
         \<and> (m = hostChars u \<or> (\<exists>rest. afterHttpPrefix u = Some rest \<and> m = hostChars rest))"
  using assms hostChars_props
  by (auto simp: matchHost_def split: option.splits if_splits)

lemma matchHost_None_iff:
  "matchHost u = None \<longleftrightarrow> u = [] \<or> hd u = CHR '':'' \<or> hd u = CHR ''/''"
proof (cases "afterHttpPrefix u")
  case None
  then show ?thesis by (simp add: matchHost_def hostChars_Nil_iff)
next
  case (Some rest)
  then have "hostChars u \<noteq> []" by (rule afterHttpPrefix_Some)
  then show ?thesis using Some by (simp add: matchHost_def hostChars_Nil_iff)
qed

lemma mapThrowing_Inr:
  "mapThrowing f xs = Inr ys \<Longrightarrow> y \<in> set ys \<Longrightarrow> \<exists>x\<in>set xs. f x = Inr y"
proof (induction xs arbitrary: ys)
  case Nil
  then show ?case by simp
next
  case (Cons x xs)
  then show ?case by (auto split: sum.splits)
qed

lemma transformGroup_domain:
  assumes "transformGroup hp raw = Inr g" "t \<in> set (tabs g)"
  shows "domain t = extractDomain hp (url t)"
proof -
  from assms(1) obtain ts where "tabs g = map (transformTab hp) ts"
    by (auto simp: transformGroup_def Let_def split: sum.splits)
  with assms(2) obtain r where "t = transformTab hp r" by auto
  then show ?thesis by (simp add: transformTab_def)
qed

lemma parse_domain:
  assumes "parseOneTabJson jp hp clk raw src = Inr M" "g \<in> set (groups M)" "t \<in> set (tabs g)"
  shows "domain t = extractDomain hp (url t)"
proof -
  from assms(1) obtain raws gs where m: "mapThrowing (transformGroup hp) raws = Inr gs"
    and "groups M = sortNewestFirst gs"
    by (auto simp: parseOneTabJson_def Let_def split: sum.splits)
  with assms(2) have "g \<in> set gs" by (simp add: set_sortNewestFirst)
  with m obtain r where "transformGroup hp r = Inr g" by (blast dest: mapThrowing_Inr)
  then show ?thesis using assms(3) by (rule transformGroup_domain)
qed

text \<open>
  C9, as stated: the domain of every normalized tab is the lower-cased host name of its
  address. The address \<open>Example.COM/x\<close> has no scheme, so strict parsing fails, and the
  text the regular expression captures is kept with its capitals: the tab's domain is
  \<open>Example.COM\<close>.
\<close>

theorem extractDomain_lowercase_counterexample:
  "\<not> hasScheme ''Example.COM/x''
   \<and> extractDomain fx_hostname ''Example.COM/x'' = ''Example.COM''
   \<and> ''Example.COM'' \<noteq> toLowerCase ''Example.COM''
   \<and> (case parseOneTabJson fx_noJson fx_hostname fx_clock1 fx_rawUpper fx_source of
         Inr M \<Rightarrow> map domain (concat (map tabs (groups M)))
       | Inl e \<Rightarrow> []) = [''Example.COM'']"
  by code_simp

text \<open>
  C9, amended. The domain of every normalized tab is \<open>extractDomain\<close> of its address:
  the host name the URL parser reports when strict parsing succeeds, and otherwise, in
  particular for every address without a scheme, the text the regular expression
  captures, unchanged: not empty, without colon or slash, taken from the start of the
  address or from behind a leading \<open>http://\<close> or \<open>https://\<close>; or \<open>unknown\<close> when the
  address is empty or starts with a colon or a slash. A string in every case, never an
  error.
\<close>

theorem extractDomain_total:
  "(URL_hostname hp u = Some h \<longrightarrow> extractDomain hp u = h)
   \<and> (\<not> hasScheme u \<longrightarrow> URL_hostname hp u = None)
   \<and> (URL_hostname hp u = None \<longrightarrow>
        extractDomain hp u = (case matchHost u of Some m \<Rightarrow> m | None \<Rightarrow> ''unknown''))
   \<and> (matchHost u = Some m \<longrightarrow>
        m \<noteq> [] \<and> CHR '':'' \<notin> set m \<and> CHR ''/'' \<notin> set m
        \<and> (m = hostChars u \<or> (\<exists>rest. afterHttpPrefix u = Some rest \<and> m = hostChars rest)))
   \<and> (matchHost u = None \<longleftrightarrow> u = [] \<or> hd u = CHR '':'' \<or> hd u = CHR ''/'')
   \<and> (parseOneTabJson jp hp clk raw src = Inr M \<longrightarrow>
        (\<forall>g\<in>set (groups M). \<forall>t\<in>set (tabs g). domain t = extractDomain hp (url t)))"
proof -
  have a: "URL_hostname hp u = Some h \<longrightarrow> extractDomain hp u = h"
    by (simp add: extractDomain_def)
  have b: "\<not> hasScheme u \<longrightarrow> URL_hostname hp u = None"
    by (simp add: URL_hostname_def)
  have c: "URL_hostname hp u = None \<longrightarrow>
        extractDomain hp u = (case matchHost u of Some m \<Rightarrow> m | None \<Rightarrow> ''unknown'')"
    by (simp add: extractDomain_def)
  have d: "parseOneTabJson jp hp clk raw src = Inr M \<longrightarrow>
        (\<forall>g\<in>set (groups M). \<forall>t\<in>set (tabs g). domain t = extractDomain hp (url t))"
    using parse_domain [of jp hp clk raw src M] by blast
  show ?thesis
    using a b c d matchHost_Some [of u m] matchHost_None_iff [of u] by blast
qed

theorem extractDomain_total_witness:
  "parseOneTabJson fx_noJson fx_hostname fx_clock1 fx_raw fx_source = Inr fx_parsed
   \<and> fx_a \<in> set (groups fx_parsed) \<and> fx_tab \<in> set (tabs fx_a)
   \<and> domain fx_tab = extractDomain fx_hostname (url fx_tab)
   \<and> URL_hostname fx_hostname ''https://github.com/x'' = Some ''github.com''
   \<and> extractDomain fx_hostname ''https://github.com/x'' = ''github.com''
   \<and> URL_hostname fx_hostname ''Example.COM/x'' = None
   \<and> extractDomain fx_hostname ''Example.COM/x'' = ''Example.COM''
   \<and> matchHost ''/path'' = None
   \<and> extractDomain fx_hostname ''/path'' = ''unknown''"
proof -
  have p: "parseOneTabJson fx_noJson fx_hostname fx_clock1 fx_raw fx_source = Inr fx_parsed"
    by code_simp
  have g: "fx_a \<in> set (groups fx_parsed)" by (simp add: fx_parsed_def)
  have t: "fx_tab \<in> set (tabs fx_a)" by (simp add: fx_a_def)
  have h: "URL_hostname fx_hostname ''https://github.com/x'' = Some ''github.com''" by code_simp
  have n: "\<not> hasScheme ''Example.COM/x''" by code_simp
  have n': "\<not> hasScheme ''/path''" by code_simp
  have m: "matchHost ''Example.COM/x'' = Some ''Example.COM''" by code_simp
  have m': "matchHost ''/path'' = None" by code_simp
  from p g t extractDomain_total
         [where jp = fx_noJson and hp = fx_hostname and clk = fx_clock1 and raw = fx_raw
            and src = fx_source and M = fx_parsed]
  have 1: "domain fx_tab = extractDomain fx_hostname (url fx_tab)" by blast
  from h extractDomain_total [where hp = fx_hostname and u = "''https://github.com/x''"
         and h = "''github.com''"]
  have 2: "extractDomain fx_hostname ''https://github.com/x'' = ''github.com''" by blast
  from n extractDomain_total [where hp = fx_hostname and u = "''Example.COM/x''"]
  have 3: "URL_hostname fx_hostname ''Example.COM/x'' = None" by blast
  from 3 m extractDomain_total [where hp = fx_hostname and u = "''Example.COM/x''"]
  have 4: "extractDomain fx_hostname ''Example.COM/x'' = ''Example.COM''" by simp
  from n' extractDomain_total [where hp = fx_hostname and u = "''/path''"]
  have 5: "URL_hostname fx_hostname ''/path'' = None" by blast
  from 5 m' extractDomain_total [where hp = fx_hostname and u = "''/path''"]
  have 6: "extractDomain fx_hostname ''/path'' = ''unknown''" by simp
  from p g t h m' 1 2 3 4 6 show ?thesis by simp
qed

end
